theory Spec2Isabelle
  imports Complex_Main
begin

section \<open>Attendance service of the course management system\<close>

text \<open>
  A shallow embedding of \<^verbatim>\<open>src/services/attendanceService.ts\<close> (class
  \<^verbatim>\<open>AttendanceService\<close>) and of the statistics helper of
  \<^verbatim>\<open>src/components/Courses/CourseCard.tsx\<close>.

  The service talks to two stores: the hosted table \<^verbatim>\<open>attendance_records\<close> and the
  browser's \<^verbatim>\<open>localStorage\<close>. Both are fields of an explicit state; every service
  function takes the state and returns the new one. An \<^verbatim>\<open>async\<close> function that may
  reject returns a sum: \<open>Inl\<close> the exception, \<open>Inr\<close> the value it resolves to. The file
  is an ES module, so its code is strict.
\<close>

subsection \<open>Values\<close>

datatype status = present | absent | late

definition status_text :: "status \<Rightarrow> string" where
  "status_text st = (case st of present \<Rightarrow> ''present'' | absent \<Rightarrow> ''absent'' | late \<Rightarrow> ''late'')"

datatype exn =
  SyntaxError | TypeError | RangeError | QuotaExceededError | NetworkError | PostgrestError

text \<open>
  What \<^verbatim>\<open>JSON.parse\<close> can return. A number is kept by its value. The pairs of an
  object stand in the order \<^verbatim>\<open>Object.entries\<close> enumerates them.
\<close>

datatype json =
  JNull | JBool bool | JNum rat | JStr string | JArr "json list" | JObj "(string \<times> json) list"

text \<open>
  The values of the statistics objects: a number, by the value of its IEEE double, or a
  string.
\<close>

datatype jsval = Num rat | Str string

subsection \<open>Double precision\<close>

text \<open>
  The quotient and the product of the statistics are IEEE 754 doubles. A double that is
  not negative is kept as a fraction of two integers; \<open>nearest_double p q\<close> is the double
  nearest to \<open>p / q\<close> for \<open>0 \<le> p\<close> and \<open>0 < q\<close>, ties to the even significand. Overflow
  and subnormal results are left out: the operands are counts and 100, so every result
  is 0 or lies between \<open>2^-53\<close> and \<open>2^60\<close>.
\<close>

function bitlen :: "int \<Rightarrow> nat" where
  \<comment> \<open>the number of binary digits\<close>
  "bitlen n = (if n \<le> 0 then 0 else Suc (bitlen (n div 2)))"
  by pat_completeness auto
termination
  by (relation "measure nat") auto

declare bitlen.simps [simp del]

definition round_ties_even :: "int \<Rightarrow> int \<Rightarrow> int" where
  \<comment> \<open>the integer nearest to \<open>p / q\<close>, the even one of two\<close>
  "round_ties_even p q =
     (let n = p div q; r = p mod q
      in if 2 * r < q then n else if q < 2 * r then n + 1 else if even n then n else n + 1)"

definition nearest_double :: "int \<Rightarrow> int \<Rightarrow> int \<times> int" where
  \<comment> \<open>\<open>p / q\<close> is scaled by the power of two that brings it between \<open>2^52\<close> and \<open>2^53\<close>,
     rounded there and scaled back\<close>
  "nearest_double p q =
     (if p = 0 then (0, 1)
      else
        let s0 = 52 + int (bitlen q) - int (bitlen p);
            s = (if 2 ^ 52 * (if 0 \<le> s0 then q else q * 2 ^ nat (- s0))
                      \<le> (if 0 \<le> s0 then p * 2 ^ nat s0 else p)
                 then s0 else s0 + 1);
            n = round_ties_even (if 0 \<le> s then p * 2 ^ nat s else p)
                                (if 0 \<le> s then q else q * 2 ^ nat (- s))
        in if 0 \<le> s then (n, 2 ^ nat s) else (n * 2 ^ nat (- s), 1))"

definition double_div :: "int \<times> int \<Rightarrow> int \<times> int \<Rightarrow> int \<times> int" where
  \<comment> \<open>\<^verbatim>\<open>x / y\<close> for a divisor that is not 0\<close>
  "double_div x y = nearest_double (fst x * snd y) (snd x * fst y)"

definition double_mul :: "int \<times> int \<Rightarrow> int \<times> int \<Rightarrow> int \<times> int" where
  "double_mul x y = nearest_double (fst x * fst y) (snd x * snd y)"

definition double_value :: "int \<times> int \<Rightarrow> rat" where
  "double_value x = of_int (fst x) / of_int (snd x)"

definition percent :: "nat \<Rightarrow> nat \<Rightarrow> rat" where
  \<comment> \<open>\<^verbatim>\<open>(k / n) * 100\<close> for two counts, \<open>n\<close> not 0\<close>
  "percent k n = double_value (double_mul (double_div (int k, 1) (int n, 1)) (100, 1))"

subsection \<open>Objects and their property order\<close>

text \<open>
  The own properties of an object are a list of (key, value) pairs in the order
  \<^verbatim>\<open>Object.entries\<close> enumerates them: array indices (canonical decimal strings
  below \<open>2^32 - 1\<close>) first, in ascending numeric order, then the other keys in the order
  of their creation. Assigning to an existing key keeps its place. Assigning to the key
  \<^verbatim>\<open>__proto__\<close>, when it is not an own property, runs the setter of
  \<^verbatim>\<open>Object.prototype\<close>: the prototype changes and no own property is made.
\<close>

type_synonym 'v obj = "(string \<times> 'v) list"

definition is_digit :: "char \<Rightarrow> bool" where
  "is_digit c = (c \<in> set ''0123456789'')"

definition digit_val :: "char \<Rightarrow> int" where
  "digit_val c = of_char c - 48"

definition dec_val :: "string \<Rightarrow> int" where
  "dec_val s = foldl (\<lambda>n c. 10 * n + digit_val c) 0 s"

definition is_array_index :: "string \<Rightarrow> bool" where
  "is_array_index s =
     (s \<noteq> [] \<and> list_all is_digit s \<and> (length s = 1 \<or> hd s \<noteq> CHR ''0'')
      \<and> dec_val s < 4294967295)"

fun show_nat :: "nat \<Rightarrow> string" where
  \<comment> \<open>the decimal digits of a number, as the key of an array element\<close>
  "show_nat n =
     (if n < 10 then [char_of (48 + n)] else show_nat (n div 10) @ [char_of (48 + n mod 10)])"

declare show_nat.simps [simp del]

fun insert_index :: "string \<Rightarrow> 'v \<Rightarrow> 'v obj \<Rightarrow> 'v obj" where
  "insert_index k v [] = [(k, v)]"
| "insert_index k v ((k', v') # ps) =
     (if is_array_index k' \<and> dec_val k' < dec_val k
      then (k', v') # insert_index k v ps
      else (k, v) # (k', v') # ps)"

definition has_key :: "string \<Rightarrow> 'v obj \<Rightarrow> bool" where
  "has_key k ps = (k \<in> fst ` set ps)"

definition js_set :: "string \<Rightarrow> 'v \<Rightarrow> 'v obj \<Rightarrow> 'v obj" where
  \<comment> \<open>the own properties after \<^verbatim>\<open>obj[k] = v\<close>, \<open>v\<close> an object\<close>
  "js_set k v ps =
     (if has_key k ps then map (\<lambda>(k', v'). if k' = k then (k', v) else (k', v')) ps
      else if k = ''__proto__'' then ps
      else if is_array_index k then insert_index k v ps
      else ps @ [(k, v)])"

definition set_element :: "nat \<Rightarrow> json \<Rightarrow> json list \<Rightarrow> json list" where
  \<comment> \<open>\<^verbatim>\<open>arr[i] = v\<close> as \<^verbatim>\<open>JSON.stringify\<close> shows the array: a hole is \<^verbatim>\<open>null\<close>\<close>
  "set_element i v xs =
     (if i < length xs then xs[i := v] else xs @ replicate (i - length xs) JNull @ [v])"

definition assign :: "string \<Rightarrow> json \<Rightarrow> json \<Rightarrow> exn + json" where
  \<comment> \<open>\<^verbatim>\<open>target[k] = v\<close> in strict code, \<open>v\<close> an object: the target as
     \<^verbatim>\<open>JSON.stringify\<close> shows it afterwards, or the exception. A primitive takes no
     property, but the setter of \<^verbatim>\<open>__proto__\<close> returns quietly on it; an array
     takes an element, refuses a \<^verbatim>\<open>length\<close> that is no number, and shows no other
     property.\<close>
  "assign k v target =
     (case target of
        JNull \<Rightarrow> Inl TypeError
      | JObj ps \<Rightarrow> Inr (JObj (js_set k v ps))
      | JArr xs \<Rightarrow>
          if is_array_index k then Inr (JArr (set_element (nat (dec_val k)) v xs))
          else if k = ''length'' then Inl RangeError
          else Inr (JArr xs)
      | _ \<Rightarrow> if k = ''__proto__'' then Inr target else Inl TypeError)"

definition entries_of :: "json \<Rightarrow> exn + json obj" where
  \<comment> \<open>\<^verbatim>\<open>Object.entries(x)\<close>; a string has one property per character\<close>
  "entries_of x =
     (case x of
        JNull \<Rightarrow> Inl TypeError
      | JObj ps \<Rightarrow> Inr ps
      | JArr xs \<Rightarrow> Inr (zip (map show_nat [0..<length xs]) xs)
      | JStr s \<Rightarrow> Inr (zip (map show_nat [0..<length s]) (map (\<lambda>c. JStr [c]) s))
      | _ \<Rightarrow> Inr [])"

definition property :: "string \<Rightarrow> json \<Rightarrow> json option" where
  \<comment> \<open>the value of \<^verbatim>\<open>x.name\<close> for an \<open>x\<close> that is not \<^verbatim>\<open>null\<close> and a name no
     prototype defines, as \<^verbatim>\<open>status\<close> and \<^verbatim>\<open>markedBy\<close>; \<open>None\<close> is
     \<^verbatim>\<open>undefined\<close>\<close>
  "property name x = (case x of JObj ps \<Rightarrow> map_of ps name | _ \<Rightarrow> None)"

definition member :: "string \<Rightarrow> json \<Rightarrow> exn + json option" where
  \<comment> \<open>\<^verbatim>\<open>x.name\<close>: reading a property of \<^verbatim>\<open>null\<close> throws\<close>
  "member name x = (if x = JNull then Inl TypeError else Inr (property name x))"

definition startsWith :: "string \<Rightarrow> string \<Rightarrow> bool" where
  "startsWith s p = (take (length p) s = p)"

definition truthy :: "string option \<Rightarrow> bool" where
  \<comment> \<open>\<^verbatim>\<open>if (date)\<close> for an optional string: undefined and the empty string are falsy\<close>
  "truthy s = (case s of None \<Rightarrow> False | Some x \<Rightarrow> x \<noteq> [])"

subsection \<open>The local cache\<close>

text \<open>
  A cache entry is the text stored under a key: the empty text, a text that is not JSON,
  or the JSON text of a value, kept as that value (\<^verbatim>\<open>JSON.stringify\<close> writes a value
  that \<^verbatim>\<open>JSON.parse\<close> reads back unchanged). \<^verbatim>\<open>localStorage\<close> is taken to be
  accessible: reading an item and listing the keys do not throw. Writing an item may
  throw; whether it does is the environment's choice.
\<close>

datatype stored = Empty | Unparseable | Text json

definition entry :: "status \<Rightarrow> string \<Rightarrow> string \<Rightarrow> json" where
  \<comment> \<open>\<^verbatim>\<open>{ status, markedBy, timestamp }\<close>\<close>
  "entry st marker t =
     JObj [(''status'', JStr (status_text st)), (''markedBy'', JStr marker),
           (''timestamp'', JStr t)]"

subsection \<open>The hosted table\<close>

text \<open>
  A row of \<^verbatim>\<open>attendance_records\<close> has the columns the migrations declare; \<open>row_id\<close>
  is the primary key the database generates. The migrations declare
  \<^verbatim>\<open>UNIQUE(course_id, student_id, date)\<close>: an insert that would break it fails as a
  whole. Whether a request reaches the table is the environment's choice (\<open>net\<close>):
  \<open>Reach\<close> executes it on the table, \<open>Fail\<close> resolves to
  \<^verbatim>\<open>{data: null, error}\<close> without effect (row-level security, a foreign key), and
  \<open>Reject\<close> rejects the awaited promise. A request that reaches the table and names a
  column the table does not have is answered with an error. The objects the service
  inserts and the object it updates with name \<^verbatim>\<open>updated_at\<close>, which neither the
  migrations nor \<^verbatim>\<open>database.types.ts\<close> declare for this table.
\<close>

record columns =
  course_id :: string
  student_id :: string
  date :: string
  row_status :: status
  marked_by :: string
  created_at :: string

record row = columns +
  row_id :: nat

record insert_row = columns +
  updated_at :: string

definition declared_columns :: "string list" where
  "declared_columns =
     [''id'', ''course_id'', ''student_id'', ''date'', ''status'', ''marked_by'', ''created_at'']"

definition insert_columns :: "string list" where
  \<comment> \<open>the keys of the objects \<^verbatim>\<open>markAttendance\<close> and \<^verbatim>\<open>markSingleAttendance\<close> insert\<close>
  "insert_columns =
     [''course_id'', ''student_id'', ''date'', ''status'', ''marked_by'', ''created_at'',
      ''updated_at'']"

definition update_columns :: "string list" where
  \<comment> \<open>the keys of the object \<^verbatim>\<open>markSingleAttendance\<close> updates with\<close>
  "update_columns = [''status'', ''marked_by'', ''updated_at'']"

definition columns_exist :: "string list \<Rightarrow> bool" where
  "columns_exist cs = list_all (\<lambda>c. c \<in> set declared_columns) cs"

datatype net = Reach | Fail | Reject

datatype 'a reply = Rejects | Reply "'a option" "exn option"

record world =
  attendance_records :: "row list"
  next_id :: nat
  localStorage :: "(string \<times> stored) list"

text \<open>
  The environment of one call of a marking function: the fate of its first and of its
  second request, the reading of the clock (\<^verbatim>\<open>new Date().toISOString()\<close>; the
  readings within one call are taken equal), and whether
  \<^verbatim>\<open>localStorage.setItem(key, JSON.stringify(...))\<close> completes (\<open>stores\<close>) or throws,
  as it does when the quota is exceeded.
\<close>

record env =
  net1 :: net
  net2 :: net
  now :: string
  stores :: bool

definition triple :: "'a columns_scheme \<Rightarrow> string \<times> string \<times> string" where
  "triple r = (course_id r, student_id r, date r)"

definition with_id :: "nat \<Rightarrow> insert_row \<Rightarrow> row" where
  "with_id i r =
     \<lparr>course_id = course_id r, student_id = student_id r, date = date r,
      row_status = row_status r, marked_by = marked_by r, created_at = created_at r,
      row_id = i\<rparr>"

fun number_rows :: "nat \<Rightarrow> insert_row list \<Rightarrow> row list" where
  "number_rows i [] = []"
| "number_rows i (r # rs) = with_id i r # number_rows (Suc i) rs"

definition unique_ok :: "insert_row list \<Rightarrow> row list \<Rightarrow> bool" where
  \<comment> \<open>the new rows clash neither with each other nor with a row of the table\<close>
  "unique_ok rs tab =
     (distinct (map triple rs) \<and> set (map triple rs) \<inter> set (map triple tab) = {})"

definition insert_rows :: "net \<Rightarrow> insert_row list \<Rightarrow> world \<Rightarrow> unit reply \<times> world" where
  \<comment> \<open>\<^verbatim>\<open>.insert(records)\<close>: an empty array names no column and inserts nothing\<close>
  "insert_rows n rs w =
     (case n of
        Reject \<Rightarrow> (Rejects, w)
      | Fail \<Rightarrow> (Reply None (Some PostgrestError), w)
      | Reach \<Rightarrow>
          if rs \<noteq> [] \<and> \<not> columns_exist insert_columns
          then (Reply None (Some PostgrestError), w)
          else if unique_ok rs (attendance_records w)
          then (Reply None None,
                w\<lparr>attendance_records := attendance_records w @ number_rows (next_id w) rs,
                  next_id := next_id w + length rs\<rparr>)
          else (Reply None (Some PostgrestError), w))"

definition delete_rows :: "net \<Rightarrow> string \<Rightarrow> string \<Rightarrow> world \<Rightarrow> unit reply \<times> world" where
  \<comment> \<open>\<^verbatim>\<open>.delete().eq('course_id', courseId).eq('date', date)\<close>\<close>
  "delete_rows n courseId d w =
     (case n of
        Reject \<Rightarrow> (Rejects, w)
      | Fail \<Rightarrow> (Reply None (Some PostgrestError), w)
      | Reach \<Rightarrow>
          (Reply None None,
           w\<lparr>attendance_records :=
               filter (\<lambda>r. \<not> (course_id r = courseId \<and> date r = d)) (attendance_records w)\<rparr>))"

definition update_row ::
  "net \<Rightarrow> nat \<Rightarrow> status \<Rightarrow> string \<Rightarrow> string \<Rightarrow> world \<Rightarrow> unit reply \<times> world" where
  \<comment> \<open>\<^verbatim>\<open>.update({status, marked_by, updated_at}).eq('id', id)\<close>\<close>
  "update_row n i st marker t w =
     (case n of
        Reject \<Rightarrow> (Rejects, w)
      | Fail \<Rightarrow> (Reply None (Some PostgrestError), w)
      | Reach \<Rightarrow>
          if \<not> columns_exist update_columns
          then (Reply None (Some PostgrestError), w)
          else (Reply None None,
                w\<lparr>attendance_records :=
                    map (\<lambda>r. if row_id r = i then r\<lparr>row_status := st, marked_by := marker\<rparr>
                              else r)
                        (attendance_records w)\<rparr>))"

definition select_single :: "net \<Rightarrow> string \<Rightarrow> string \<Rightarrow> string \<Rightarrow> world \<Rightarrow> nat reply" where
  \<comment> \<open>\<^verbatim>\<open>.select('id').eq(...).eq(...).eq(...).single()\<close>: an error unless exactly one row\<close>
  "select_single n courseId studentId d w =
     (case n of
        Reject \<Rightarrow> Rejects
      | Fail \<Rightarrow> Reply None (Some PostgrestError)
      | Reach \<Rightarrow>
          (case filter (\<lambda>r. triple r = (courseId, studentId, d)) (attendance_records w) of
             [r] \<Rightarrow> Reply (Some (row_id r)) None
           | _ \<Rightarrow> Reply None (Some PostgrestError)))"

fun str_le :: "string \<Rightarrow> string \<Rightarrow> bool" where
  "str_le [] t = True"
| "str_le (a # s) [] = False"
| "str_le (a # s) (b # t) = (if a = b then str_le s t else (of_char a :: nat) < of_char b)"

fun insert_desc :: "row \<Rightarrow> row list \<Rightarrow> row list" where
  "insert_desc r [] = [r]"
| "insert_desc r (x # xs) =
     (if str_le (date x) (date r) then r # x # xs else x # insert_desc r xs)"

definition order_date_desc :: "row list \<Rightarrow> row list" where
  \<comment> \<open>\<^verbatim>\<open>.order('date', { ascending: false })\<close>, dates compared as ISO strings\<close>
  "order_date_desc rs = foldr insert_desc rs []"

definition query_records :: "net \<Rightarrow> string \<Rightarrow> string option \<Rightarrow> world \<Rightarrow> row list reply" where
  "query_records n courseId d w =
     (case n of
        Reject \<Rightarrow> Rejects
      | Fail \<Rightarrow> Reply None (Some PostgrestError)
      | Reach \<Rightarrow>
          Reply (Some (order_date_desc
            (filter (\<lambda>r. course_id r = courseId \<and> (if truthy d then Some (date r) = d else True))
                    (attendance_records w)))) None)"

definition query_status ::
  "net \<Rightarrow> string \<Rightarrow> string option \<Rightarrow> string option \<Rightarrow> world \<Rightarrow> status list reply" where
  \<comment> \<open>\<^verbatim>\<open>.select('status').eq('course_id', courseId)\<close> with the optional date bounds\<close>
  "query_status n courseId startDate endDate w =
     (case n of
        Reject \<Rightarrow> Rejects
      | Fail \<Rightarrow> Reply None (Some PostgrestError)
      | Reach \<Rightarrow>
          Reply (Some (map row_status
            (filter (\<lambda>r. course_id r = courseId
                        \<and> (if truthy startDate then str_le (the startDate) (date r) else True)
                        \<and> (if truthy endDate then str_le (date r) (the endDate) else True))
                    (attendance_records w)))) None)"

definition awaited :: "unit reply \<times> world \<Rightarrow> (exn + unit) \<times> world" where
  \<comment> \<open>\<^verbatim>\<open>const { error } = await ...; if (error) throw error;\<close>\<close>
  "awaited x =
     (case x of
        (Rejects, w) \<Rightarrow> (Inl NetworkError, w)
      | (Reply _ (Some e), w) \<Rightarrow> (Inl e, w)
      | (Reply _ None, w) \<Rightarrow> (Inr (), w))"

subsection \<open>localStorage\<close>

fun put :: "string \<Rightarrow> 'v \<Rightarrow> (string \<times> 'v) list \<Rightarrow> (string \<times> 'v) list" where
  "put k v [] = [(k, v)]"
| "put k v ((k', v') # ps) = (if k' = k then (k, v) # ps else (k', v') # put k v ps)"

definition getItem :: "string \<Rightarrow> world \<Rightarrow> stored option" where
  "getItem k w = map_of (localStorage w) k"

definition setItem :: "bool \<Rightarrow> string \<Rightarrow> json \<Rightarrow> world \<Rightarrow> exn + world" where
  \<comment> \<open>\<^verbatim>\<open>localStorage.setItem(k, JSON.stringify(v))\<close>; the first argument tells whether
     the statement completes\<close>
  "setItem ok k v w =
     (if ok then Inr (w\<lparr>localStorage := put k (Text v) (localStorage w)\<rparr>)
      else Inl QuotaExceededError)"

definition JSON_parse :: "stored option \<Rightarrow> exn + json" where
  \<comment> \<open>\<^verbatim>\<open>JSON.parse(localStorage.getItem(key) || '{}')\<close>\<close>
  "JSON_parse x =
     (case x of
        None \<Rightarrow> Inr (JObj [])
      | Some Empty \<Rightarrow> Inr (JObj [])
      | Some Unparseable \<Rightarrow> Inl SyntaxError
      | Some (Text v) \<Rightarrow> Inr v)"

definition storageKey :: "string \<Rightarrow> string \<Rightarrow> string" where
  "storageKey courseId d = ''attendance_'' @ courseId @ ''_'' @ d"

subsection \<open>Reading: \<^verbatim>\<open>getAttendanceRecords\<close>\<close>

text \<open>
  The array the function resolves to holds rows of the table on the remote path and
  \<^verbatim>\<open>AttendanceRecord\<close> objects on the fallback path. The \<^verbatim>\<open>Date\<close> object built
  from the date string is kept as that string; the joined profile and course columns of
  a row are left out. The status and the marker of a decoded record are whatever the
  cached value holds under \<^verbatim>\<open>status\<close> and \<^verbatim>\<open>markedBy\<close>.
\<close>

record AttendanceRecord =
  ar_id :: string
  courseId :: string
  studentId :: string
  ar_date :: string
  ar_status :: "json option"
  ar_markedBy :: "json option"

datatype record_out = Row row | Rec AttendanceRecord

fun decode_entries :: "string \<Rightarrow> string \<Rightarrow> json obj \<Rightarrow> exn + AttendanceRecord list" where
  \<comment> \<open>the \<^verbatim>\<open>forEach\<close> loop over the entries: \<^verbatim>\<open>record.status\<close> throws on
     \<^verbatim>\<open>null\<close>\<close>
  "decode_entries cid d [] = Inr []"
| "decode_entries cid d ((sid, recordData) # rest) =
     (case member ''status'' recordData of
        Inl e \<Rightarrow> Inl e
      | Inr st \<Rightarrow>
          (case member ''markedBy'' recordData of
             Inl e \<Rightarrow> Inl e
           | Inr marker \<Rightarrow>
               (case decode_entries cid d rest of
                  Inl e \<Rightarrow> Inl e
                | Inr records \<Rightarrow>
                    Inr (\<lparr>ar_id = cid @ ''_'' @ sid @ ''_'' @ d, courseId = cid, studentId = sid,
                          ar_date = d, ar_status = st, ar_markedBy = marker\<rparr> # records))))"

definition decode_local :: "string \<Rightarrow> string \<Rightarrow> json \<Rightarrow> exn + AttendanceRecord list" where
  \<comment> \<open>\<^verbatim>\<open>Object.entries(localData).forEach(...)\<close>\<close>
  "decode_local cid d localData =
     (case entries_of localData of
        Inl e \<Rightarrow> Inl e
      | Inr ps \<Rightarrow> decode_entries cid d ps)"

definition read_fallback :: "string \<Rightarrow> string option \<Rightarrow> world \<Rightarrow> exn + record_out list" where
  \<comment> \<open>the body of \<^verbatim>\<open>catch (dbError)\<close>; an exception thrown in it reaches the outer
     \<^verbatim>\<open>catch\<close>, which throws it again\<close>
  "read_fallback cid d w =
     (if truthy d
      then (case JSON_parse (getItem (storageKey cid (the d)) w) of
              Inl e \<Rightarrow> Inl e
            | Inr localData \<Rightarrow>
                (case decode_local cid (the d) localData of
                   Inl e \<Rightarrow> Inl e
                 | Inr records \<Rightarrow> Inr (map Rec records)))
      else Inr [])"

definition getAttendanceRecords ::
  "net \<Rightarrow> string \<Rightarrow> string option \<Rightarrow> world \<Rightarrow> exn + record_out list" where
  "getAttendanceRecords n cid d w =
     (case query_records n cid d w of
        Rejects \<Rightarrow> read_fallback cid d w
      | Reply dat (Some e) \<Rightarrow> read_fallback cid d w
      | Reply dat None \<Rightarrow> Inr (case dat of None \<Rightarrow> [] | Some rows \<Rightarrow> map Row rows))"

subsection \<open>Writing: \<^verbatim>\<open>markAttendance\<close> and \<^verbatim>\<open>markSingleAttendance\<close>\<close>

definition snapshot :: "(string \<times> status) list \<Rightarrow> string \<Rightarrow> string \<Rightarrow> json obj" where
  \<comment> \<open>the own properties of \<^verbatim>\<open>localData\<close> after the \<^verbatim>\<open>attendanceData.forEach\<close> loop\<close>
  "snapshot attendanceData marker t =
     foldl (\<lambda>localData (sid, st). js_set sid (entry st marker t) localData) [] attendanceData"

definition bulk_rows ::
  "string \<Rightarrow> string \<Rightarrow> (string \<times> status) list \<Rightarrow> string \<Rightarrow> string \<Rightarrow> insert_row list" where
  \<comment> \<open>\<^verbatim>\<open>attendanceData.map(record => ({...}))\<close>\<close>
  "bulk_rows cid d attendanceData marker t =
     map (\<lambda>(sid, st).
            \<lparr>course_id = cid, student_id = sid, date = d, row_status = st, marked_by = marker,
             created_at = t, updated_at = t\<rparr>)
         attendanceData"

definition markAttendance_remote ::
  "env \<Rightarrow> string \<Rightarrow> string \<Rightarrow> (string \<times> status) list \<Rightarrow> string \<Rightarrow> world \<Rightarrow> (exn + unit) \<times> world"
  where
  \<comment> \<open>the body of the inner \<^verbatim>\<open>try\<close>: the reply of the delete is awaited but its
     \<^verbatim>\<open>error\<close> is not looked at\<close>
  "markAttendance_remote e cid d attendanceData marker w =
     (case delete_rows (net1 e) cid d w of
        (Rejects, w1) \<Rightarrow> (Inl NetworkError, w1)
      | (Reply _ _, w1) \<Rightarrow>
          awaited (insert_rows (net2 e) (bulk_rows cid d attendanceData marker (now e)) w1))"

definition markAttendance ::
  "env \<Rightarrow> string \<Rightarrow> string \<Rightarrow> (string \<times> status) list \<Rightarrow> string \<Rightarrow> world \<Rightarrow> (exn + bool) \<times> world"
  where
  \<comment> \<open>an exception of \<^verbatim>\<open>setItem\<close> is caught by the outer \<^verbatim>\<open>catch\<close>
     (\<^verbatim>\<open>return false\<close>); the inner \<^verbatim>\<open>catch\<close> only logs\<close>
  "markAttendance e cid d attendanceData marker w =
     (case setItem (stores e) (storageKey cid d)
             (JObj (snapshot attendanceData marker (now e))) w of
        Inl error \<Rightarrow> (Inr False, w)
      | Inr w1 \<Rightarrow>
          (case markAttendance_remote e cid d attendanceData marker w1 of
             (Inl dbError, w2) \<Rightarrow> (Inr True, w2)
           | (Inr _, w2) \<Rightarrow> (Inr True, w2)))"

definition markSingleAttendance_remote ::
  "env \<Rightarrow> string \<Rightarrow> string \<Rightarrow> string \<Rightarrow> status \<Rightarrow> string \<Rightarrow> world \<Rightarrow> (exn + unit) \<times> world"
  where
  \<comment> \<open>the body of the inner \<^verbatim>\<open>try\<close>: only \<^verbatim>\<open>data\<close> of the select is read\<close>
  "markSingleAttendance_remote e cid sid d st marker w =
     (case select_single (net1 e) cid sid d w of
        Rejects \<Rightarrow> (Inl NetworkError, w)
      | Reply existingRecord _ \<Rightarrow>
          (case existingRecord of
             Some i \<Rightarrow> awaited (update_row (net2 e) i st marker (now e) w)
           | None \<Rightarrow>
               awaited (insert_rows (net2 e)
                 [\<lparr>course_id = cid, student_id = sid, date = d, row_status = st,
                   marked_by = marker, created_at = now e, updated_at = now e\<rparr>] w)))"

definition markSingleAttendance ::
  "env \<Rightarrow> string \<Rightarrow> string \<Rightarrow> string \<Rightarrow> status \<Rightarrow> string \<Rightarrow> world \<Rightarrow> (exn + bool) \<times> world"
  where
  \<comment> \<open>an exception of \<^verbatim>\<open>JSON.parse\<close>, of the assignment or of \<^verbatim>\<open>setItem\<close> is
     caught by the outer \<^verbatim>\<open>catch\<close> (\<^verbatim>\<open>return false\<close>); the inner
     \<^verbatim>\<open>catch\<close> only logs\<close>
  "markSingleAttendance e cid sid d st marker w =
     (case JSON_parse (getItem (storageKey cid d) w) of
        Inl error \<Rightarrow> (Inr False, w)
      | Inr existingData \<Rightarrow>
          (case assign sid (entry st marker (now e)) existingData of
             Inl error \<Rightarrow> (Inr False, w)
           | Inr assigned \<Rightarrow>
               (case setItem (stores e) (storageKey cid d) assigned w of
                  Inl error \<Rightarrow> (Inr False, w)
                | Inr w1 \<Rightarrow>
                    (case markSingleAttendance_remote e cid sid d st marker w1 of
                       (Inl dbError, w2) \<Rightarrow> (Inr True, w2)
                     | (Inr _, w2) \<Rightarrow> (Inr True, w2)))))"

subsection \<open>\<^verbatim>\<open>bulkImportAttendance\<close>\<close>

record results =
  success :: nat
  failed :: nat
  errors :: "string list"

definition exn_text :: "exn \<Rightarrow> string" where
  \<comment> \<open>\<^verbatim>\<open>`${error}`\<close>, the message after the name left out\<close>
  "exn_text e =
     (case e of
        SyntaxError \<Rightarrow> ''SyntaxError''
      | TypeError \<Rightarrow> ''TypeError''
      | RangeError \<Rightarrow> ''RangeError''
      | QuotaExceededError \<Rightarrow> ''QuotaExceededError''
      | NetworkError \<Rightarrow> ''TypeError: Failed to fetch''
      | PostgrestError \<Rightarrow> ''[object Object]'')"

fun import_loop ::
  "(nat \<Rightarrow> env) \<Rightarrow> nat \<Rightarrow> string \<Rightarrow> (string \<times> string \<times> status) list \<Rightarrow> string \<Rightarrow>
   results \<Rightarrow> world \<Rightarrow> results \<times> world" where
  "import_loop es i cid [] marker res w = (res, w)"
| "import_loop es i cid ((sid, d, st) # rest) marker res w =
     (case markSingleAttendance (es i) cid sid d st marker w of
        (Inr _, w1) \<Rightarrow>
          import_loop es (Suc i) cid rest marker (res\<lparr>success := success res + 1\<rparr>) w1
      | (Inl error, w1) \<Rightarrow>
          import_loop es (Suc i) cid rest marker
            (res\<lparr>failed := failed res + 1,
                 errors := errors res @
                   [''Failed to import record for student '' @ sid @ '' on '' @ d @ '': ''
                    @ exn_text error]\<rparr>) w1)"

definition bulkImportAttendance ::
  "(nat \<Rightarrow> env) \<Rightarrow> string \<Rightarrow> (string \<times> string \<times> status) list \<Rightarrow> string \<Rightarrow> world \<Rightarrow>
   results \<times> world" where
  \<comment> \<open>\<open>es i\<close> is the environment of the call made for the \<open>i\<close>-th entry\<close>
  "bulkImportAttendance es cid attendanceData marker w =
     import_loop es 0 cid attendanceData marker \<lparr>success = 0, failed = 0, errors = []\<rparr> w"

subsection \<open>The roster: \<^verbatim>\<open>getCourseStudents\<close>\<close>

record student =
  student_uuid :: string
  name :: string
  email :: string
  student_no :: string

text \<open>
  The \<^verbatim>\<open>student\<close> column of an enrollment row of the join: one profile, an array of
  profiles, or \<^verbatim>\<open>null\<close>. \<^verbatim>\<open>flat()\<close> splices the arrays and keeps the rest.
\<close>

datatype joined = Profile student | Profiles "student list" | NoProfile

fun flat1 :: "joined \<Rightarrow> student option list" where
  "flat1 (Profile s) = [Some s]"
| "flat1 (Profiles ss) = map Some ss"
| "flat1 NoProfile = [None]"

definition mockStudents :: "student list" where
  "mockStudents =
     [\<lparr>student_uuid = ''550e8400-e29b-41d4-a716-446655440005'', name = ''John Smith'',
       email = ''john.smith@student.edu'', student_no = ''STU001''\<rparr>,
      \<lparr>student_uuid = ''550e8400-e29b-41d4-a716-446655440006'', name = ''Maria Garcia'',
       email = ''maria.garcia@student.edu'', student_no = ''STU002''\<rparr>,
      \<lparr>student_uuid = ''550e8400-e29b-41d4-a716-446655440007'', name = ''David Wilson'',
       email = ''david.wilson@student.edu'', student_no = ''STU003''\<rparr>,
      \<lparr>student_uuid = ''550e8400-e29b-41d4-a716-446655440008'', name = ''Lisa Zhang'',
       email = ''lisa.zhang@student.edu'', student_no = ''STU004''\<rparr>,
      \<lparr>student_uuid = ''550e8400-e29b-41d4-a716-446655440009'', name = ''Robert Brown'',
       email = ''robert.brown@student.edu'', student_no = ''STU005''\<rparr>]"

definition getCourseStudents :: "joined list reply \<Rightarrow> string \<Rightarrow> exn + student option list" where
  \<comment> \<open>the first argument is the reply of the enrollment join for the course\<close>
  "getCourseStudents join cid =
     (case join of
        Rejects \<Rightarrow> Inr (map Some mockStudents)
      | Reply dat (Some error) \<Rightarrow> Inr (map Some mockStudents)
      | Reply dat None \<Rightarrow>
          (let students = concat (map flat1 (case dat of None \<Rightarrow> [] | Some enr \<Rightarrow> enr))
           in if length students = 0 then Inr (map Some mockStudents) else Inr students))"

subsection \<open>Statistics: \<^verbatim>\<open>getAttendanceStats\<close> of the service\<close>

text \<open>
  A record of the statistics is the value of its \<^verbatim>\<open>status\<close> property: a string on the
  remote path, whatever the cache holds on the fallback path (\<open>None\<close> is
  \<^verbatim>\<open>undefined\<close>).
\<close>

fun statuses_of :: "json obj \<Rightarrow> exn + json option list" where
  \<comment> \<open>the \<^verbatim>\<open>Object.entries(dateData).forEach\<close> loop\<close>
  "statuses_of [] = Inr []"
| "statuses_of ((sid, record) # rest) =
     (case member ''status'' record of
        Inl e \<Rightarrow> Inl e
      | Inr st \<Rightarrow> (case statuses_of rest of Inl e \<Rightarrow> Inl e | Inr sts \<Rightarrow> Inr (st # sts)))"

fun scan_keys :: "string list \<Rightarrow> world \<Rightarrow> json option list \<Rightarrow> exn + json option list" where
  \<comment> \<open>the \<^verbatim>\<open>courseAttendanceKeys.forEach\<close> loop, pushing one status per cached entry\<close>
  "scan_keys [] w acc = Inr acc"
| "scan_keys (key # keys) w acc =
     (case JSON_parse (getItem key w) of
        Inl e \<Rightarrow> Inl e
      | Inr dateData \<Rightarrow>
          (case entries_of dateData of
             Inl e \<Rightarrow> Inl e
           | Inr ps \<Rightarrow>
               (case statuses_of ps of
                  Inl e \<Rightarrow> Inl e
                | Inr sts \<Rightarrow> scan_keys keys w (acc @ sts))))"

definition stats_records ::
  "net \<Rightarrow> string \<Rightarrow> string option \<Rightarrow> string option \<Rightarrow> world \<Rightarrow> exn + json option list" where
  \<comment> \<open>\<^verbatim>\<open>attendanceRecords\<close> as it stands before \<^verbatim>\<open>const stats\<close>\<close>
  "stats_records n cid startDate endDate w =
     (case query_status n cid startDate endDate w of
        Rejects \<Rightarrow> Inl NetworkError
      | Reply (Some dat) None \<Rightarrow> Inr (map (\<lambda>st. Some (JStr (status_text st))) dat)
      | Reply _ _ \<Rightarrow>
          scan_keys (filter (\<lambda>key. startsWith key (''attendance_'' @ cid @ ''_''))
                            (map fst (localStorage w))) w [])"

definition count_status :: "status \<Rightarrow> json option list \<Rightarrow> nat" where
  \<comment> \<open>\<^verbatim>\<open>attendanceRecords.filter(r => r.status === '...').length\<close>\<close>
  "count_status st rs = length (filter (\<lambda>r. r = Some (JStr (status_text st))) rs)"

definition stats_object :: "nat \<Rightarrow> json option list \<Rightarrow> jsval obj" where
  \<comment> \<open>\<^verbatim>\<open>{...stats, presentPercentage, attendanceRate}\<close>\<close>
  "stats_object totalStudents attendanceRecords =
     (let totalRecords = length attendanceRecords;
          n_present = count_status present attendanceRecords;
          n_absent = count_status absent attendanceRecords;
          n_late = count_status late attendanceRecords
      in [(''totalStudents'', Num (of_nat totalStudents)),
          (''totalRecords'', Num (of_nat totalRecords)),
          (''present'', Num (of_nat n_present)),
          (''absent'', Num (of_nat n_absent)),
          (''late'', Num (of_nat n_late)),
          (''presentPercentage'',
             Num (if totalRecords > 0 then percent n_present totalRecords else 0)),
          (''attendanceRate'',
             Num (if totalRecords > 0 then percent (n_present + n_late) totalRecords else 0))])"

definition default_stats :: "nat \<Rightarrow> jsval obj" where
  \<comment> \<open>the object literal of the \<^verbatim>\<open>catch\<close> branches\<close>
  "default_stats totalStudents =
     [(''totalStudents'', Num (of_nat totalStudents)), (''totalRecords'', Num 0),
      (''present'', Num 0), (''absent'', Num 0), (''late'', Num 0),
      (''presentPercentage'', Num 0), (''attendanceRate'', Num 0)]"

definition getAttendanceStats ::
  "joined list reply \<Rightarrow> joined list reply \<Rightarrow> net \<Rightarrow> string \<Rightarrow> string option \<Rightarrow> string option \<Rightarrow>
   world \<Rightarrow> exn + jsval obj" where
  \<comment> \<open>\<open>join1\<close> answers the roster query of the \<^verbatim>\<open>try\<close> block, \<open>join2\<close> the one
     of the \<^verbatim>\<open>catch\<close> block\<close>
  "getAttendanceStats join1 join2 n cid startDate endDate w =
     (case (case getCourseStudents join1 cid of
              Inl e \<Rightarrow> Inl e
            | Inr enrolledStudents \<Rightarrow>
                (case stats_records n cid startDate endDate w of
                   Inl e \<Rightarrow> Inl e
                 | Inr attendanceRecords \<Rightarrow>
                     Inr (stats_object (length enrolledStudents) attendanceRecords))) of
        Inr stats \<Rightarrow> Inr stats
      | Inl error \<Rightarrow>
          (case getCourseStudents join2 cid of
             Inr enrolledStudents \<Rightarrow> Inr (default_stats (length enrolledStudents))
           | Inl e \<Rightarrow> Inr (default_stats 0)))"

subsection \<open>Statistics: \<^verbatim>\<open>getAttendanceStats\<close> of the course card\<close>

text \<open>
  The card computes its panel from its own state: the roster and the records of the
  selected date. \<^verbatim>\<open>Number.prototype.toFixed(1)\<close> is a parameter of the model.
\<close>

definition out_status :: "record_out \<Rightarrow> json option" where
  \<comment> \<open>\<^verbatim>\<open>r.status\<close>\<close>
  "out_status r =
     (case r of Row x \<Rightarrow> Some (JStr (status_text (row_status x))) | Rec a \<Rightarrow> ar_status a)"

definition count_out :: "status \<Rightarrow> record_out list \<Rightarrow> nat" where
  \<comment> \<open>\<^verbatim>\<open>attendanceRecords.filter(r => r.status === '...').length\<close>\<close>
  "count_out st rs = length (filter (\<lambda>r. out_status r = Some (JStr (status_text st))) rs)"

definition CourseCard_getAttendanceStats ::
  "(rat \<Rightarrow> string) \<Rightarrow> 'a list \<Rightarrow> record_out list \<Rightarrow> jsval obj" where
  "CourseCard_getAttendanceStats toFixed1 students attendanceRecords =
     (let totalStudents = int (length students);
          markedStudents = int (length attendanceRecords);
          n_present = count_out present attendanceRecords;
          n_late = count_out late attendanceRecords;
          n_absent = count_out absent attendanceRecords;
          unmarked = totalStudents - markedStudents
      in [(''totalStudents'', Num (of_int totalStudents)),
          (''markedStudents'', Num (of_int markedStudents)),
          (''present'', Num (of_nat n_present)),
          (''late'', Num (of_nat n_late)),
          (''absent'', Num (of_nat n_absent)),
          (''unmarked'', Num (of_int unmarked)),
          (''attendanceRate'',
             Str (if markedStudents > 0
                  then toFixed1 (percent (n_present + n_late) (length attendanceRecords))
                  else ''0''))])"

subsection \<open>Sequences of marking calls and the properties stated about them\<close>

datatype call =
    MarkOne env string string string status string
  | MarkBulk env string string "(string \<times> status) list" string

fun exec :: "call \<Rightarrow> world \<Rightarrow> world" where
  "exec (MarkOne e cid sid d st marker) w = snd (markSingleAttendance e cid sid d st marker w)"
| "exec (MarkBulk e cid d attendanceData marker) w = snd (markAttendance e cid d attendanceData marker w)"

fun run :: "call list \<Rightarrow> world \<Rightarrow> world" where
  "run [] w = w"
| "run (c # cs) w = run cs (exec c w)"

definition count_rows :: "string \<Rightarrow> string \<Rightarrow> string \<Rightarrow> world \<Rightarrow> nat" where
  \<comment> \<open>the rows of the table for one (course, student, date)\<close>
  "count_rows cid sid d w =
     length (filter (\<lambda>r. triple r = (cid, sid, d)) (attendance_records w))"

definition cached_entries :: "string \<Rightarrow> string \<Rightarrow> world \<Rightarrow> json obj" where
  \<comment> \<open>the entries of the cached value of (course, date); none when there is no value or
     it has no entries\<close>
  "cached_entries cid d w =
     (case getItem (storageKey cid d) w of
        Some (Text v) \<Rightarrow> (case entries_of v of Inr ps \<Rightarrow> ps | Inl e \<Rightarrow> [])
      | _ \<Rightarrow> [])"

definition count_cached :: "string \<Rightarrow> string \<Rightarrow> string \<Rightarrow> world \<Rightarrow> nat" where
  \<comment> \<open>the entries of the cached value of (course, date) that are keyed by the student\<close>
  "count_cached cid sid d w = length (filter (\<lambda>p. fst p = sid) (cached_entries cid d w))"

definition decoded_record :: "string \<Rightarrow> string \<Rightarrow> string \<times> json \<Rightarrow> AttendanceRecord" where
  \<comment> \<open>the record that stands for one entry of a cached value: the key is the student, the
     status and the marker are the properties of the entry's value\<close>
  "decoded_record cid d p =
     \<lparr>ar_id = cid @ ''_'' @ fst p @ ''_'' @ d, courseId = cid, studentId = fst p, ar_date = d,
      ar_status = property ''status'' (snd p), ar_markedBy = property ''markedBy'' (snd p)\<rparr>"

definition takes_mark :: "string \<Rightarrow> json \<Rightarrow> bool" where
  \<comment> \<open>the cached values on which a single mark of the student goes through: any object;
     an array unless the student is named \<^verbatim>\<open>length\<close>; a string, a number or a boolean
     only for the student named \<^verbatim>\<open>__proto__\<close>; never \<^verbatim>\<open>null\<close>\<close>
  "takes_mark sid v =
     (case v of
        JNull \<Rightarrow> False
      | JObj ps \<Rightarrow> True
      | JArr xs \<Rightarrow> sid \<noteq> ''length''
      | _ \<Rightarrow> sid = ''__proto__'')"

definition rows_unique :: "world \<Rightarrow> bool" where
  "rows_unique w = distinct (map triple (attendance_records w))"

definition stored_ok :: "stored \<Rightarrow> bool" where
  \<comment> \<open>an object has each key once\<close>
  "stored_ok x = (case x of Text (JObj ps) \<Rightarrow> distinct (map fst ps) | _ \<Rightarrow> True)"

definition cache_ok :: "world \<Rightarrow> bool" where
  "cache_ok w = list_all (\<lambda>p. stored_ok (snd p)) (localStorage w)"

definition empty_world :: world where
  "empty_world = \<lparr>attendance_records = [], next_id = 0, localStorage = []\<rparr>"

subsection \<open>When the roster is unavailable\<close>

definition roster_unavailable :: "joined list reply \<Rightarrow> bool" where
  \<comment> \<open>the enrollment join rejects, answers with an error, or yields no student\<close>
  "roster_unavailable join =
     (case join of
        Rejects \<Rightarrow> True
      | Reply dat (Some e) \<Rightarrow> True
      | Reply None None \<Rightarrow> True
      | Reply (Some enr) None \<Rightarrow> concat (map flat1 enr) = [])"

subsection \<open>Sample states and environments\<close>

definition up :: env where
  "up = \<lparr>net1 = Reach, net2 = Reach, now = ''t1'', stores = True\<rparr>"


definition down :: env where
  "down = \<lparr>net1 = Reject, net2 = Reject, now = ''2024-01-15T09:00:00.000Z'', stores = True\<rparr>"

definition full :: env where
  \<comment> \<open>the backend answers, the quota of \<^verbatim>\<open>localStorage\<close> is used up\<close>
  "full = \<lparr>net1 = Reach, net2 = Reach, now = ''t1'', stores = False\<rparr>"

definition corrupt_world :: world where
  "corrupt_world =
     \<lparr>attendance_records = [], next_id = 0,
      localStorage = [(''attendance_C1_2024-01-15'', Unparseable)]\<rparr>"

definition undated_world :: world where
  "undated_world =
     \<lparr>attendance_records = [], next_id = 0,
      localStorage =
        [(''attendance_C1_'',
          Text (JObj [(''S1'', entry present ''I1'' ''2024-01-15T09:00:00.000Z'')]))]\<rparr>"

definition sample_rows :: "row list" where
  "sample_rows =
     [\<lparr>course_id = ''C1'', student_id = ''A'', date = ''2024-01-15'', row_status = present,
       marked_by = ''I1'', created_at = ''t0'', row_id = 0\<rparr>,
      \<lparr>course_id = ''C1'', student_id = ''B'', date = ''2024-01-15'', row_status = absent,
       marked_by = ''I1'', created_at = ''t0'', row_id = 1\<rparr>,
      \<lparr>course_id = ''C1'', student_id = ''C'', date = ''2024-01-15'', row_status = absent,
       marked_by = ''I1'', created_at = ''t0'', row_id = 2\<rparr>]"

definition sample_cache :: "json obj" where
  "sample_cache =
     [(''A'', entry present ''I1'' ''t0''), (''B'', entry absent ''I1'' ''t0''),
      (''C'', entry absent ''I1'' ''t0'')]"

definition sample_world :: world where
  "sample_world =
     \<lparr>attendance_records = sample_rows, next_id = 3,
      localStorage = [(''attendance_C1_2024-01-15'', Text (JObj sample_cache))]\<rparr>"

definition duplicate_calls :: "call list" where
  "duplicate_calls =
     [MarkBulk up ''C1'' ''2024-01-16'' [(''A'', present), (''A'', absent)] ''I1'',
      MarkOne up ''C1'' ''A'' ''2024-01-16'' late ''I1'']"

section \<open>Auxiliary facts\<close>

subsection \<open>localStorage\<close>

lemma map_of_put: "map_of (put k v ps) = (map_of ps)(k \<mapsto> v)"
  by (induction ps) (auto simp: fun_upd_twist)


lemma list_all_put:
  "list_all P ps \<Longrightarrow> P (k, v) \<Longrightarrow> list_all P (put k v ps)"
  by (induction ps) auto

lemma getItem_put:
  "getItem k' (w\<lparr>localStorage := put k v (localStorage w)\<rparr>)
     = (if k' = k then Some v else getItem k' w)"
  by (simp add: getItem_def map_of_put)

lemma getItem_cong: "localStorage w' = localStorage w \<Longrightarrow> getItem k w' = getItem k w"
  by (simp add: getItem_def)

subsection \<open>The requests of the service\<close>

lemma insert_columns_refused: "\<not> columns_exist insert_columns"
  by (simp add: columns_exist_def insert_columns_def declared_columns_def)

lemma update_columns_refused: "\<not> columns_exist update_columns"
  by (simp add: columns_exist_def update_columns_def declared_columns_def)

lemma snd_awaited: "snd (awaited x) = snd x"
  by (auto simp: awaited_def split: prod.splits reply.splits option.splits)

lemma snd_insert_rows: "snd (insert_rows n rs w) = w"
  by (cases rs) (simp_all add: insert_rows_def insert_columns_refused unique_ok_def split: net.splits)

lemma snd_update_row: "snd (update_row n i st m t w) = w"
  by (simp add: update_row_def update_columns_refused split: net.splits)

lemma snd_markSingleAttendance_remote:
  "snd (markSingleAttendance_remote e cid sid d st m w) = w"
  by (simp add: markSingleAttendance_remote_def snd_awaited snd_insert_rows snd_update_row
        split: reply.splits option.splits)

lemma snd_markAttendance_remote:
  "snd (markAttendance_remote e cid d xs m w) = snd (delete_rows (net1 e) cid d w)"
proof (cases "delete_rows (net1 e) cid d w")
  case (Pair r w1)
  then show ?thesis
    by (cases r) (simp_all add: markAttendance_remote_def snd_awaited snd_insert_rows)
qed

lemma delete_rows_localStorage:
  "localStorage (snd (delete_rows n cid d w)) = localStorage w"
  by (simp add: delete_rows_def split: net.splits)

lemma delete_rows_records:
  "attendance_records (snd (delete_rows n cid d w))
     = (if n = Reach
        then filter (\<lambda>r. \<not> (course_id r = cid \<and> date r = d)) (attendance_records w)
        else attendance_records w)"
  by (simp add: delete_rows_def split: net.splits)

lemma delete_rows_storage_update:
  "snd (delete_rows n cid d (w\<lparr>localStorage := L\<rparr>))
     = (snd (delete_rows n cid d w))\<lparr>localStorage := L\<rparr>"
  by (simp add: delete_rows_def split: net.splits)

lemma markSingleAttendance_eq:
  "markSingleAttendance e cid sid d st m w =
     (case JSON_parse (getItem (storageKey cid d) w) of
        Inl x \<Rightarrow> (Inr False, w)
      | Inr v \<Rightarrow>
          (case assign sid (entry st m (now e)) v of
             Inl x \<Rightarrow> (Inr False, w)
           | Inr v' \<Rightarrow>
               if stores e
               then (Inr True, w\<lparr>localStorage := put (storageKey cid d) (Text v') (localStorage w)\<rparr>)
               else (Inr False, w)))"
  by (simp add: markSingleAttendance_def setItem_def split_beta snd_markSingleAttendance_remote
        split: sum.splits)

lemma markAttendance_eq:
  "markAttendance e cid d xs m w =
     (if stores e
      then (Inr True,
            snd (delete_rows (net1 e) cid d
                   (w\<lparr>localStorage := put (storageKey cid d) (Text (JObj (snapshot xs m (now e))))
                                         (localStorage w)\<rparr>)))
      else (Inr False, w))"
  by (simp add: markAttendance_def setItem_def split_beta snd_markAttendance_remote
        split: sum.splits)

lemma markSingleAttendance_resolves:
  "\<exists>b. fst (markSingleAttendance e cid sid d st marker w) = Inr b"
  by (auto simp: markSingleAttendance_eq split: sum.splits)

lemma markSingleAttendance_records:
  "attendance_records (snd (markSingleAttendance e cid sid d st m w)) = attendance_records w"
  by (simp add: markSingleAttendance_eq split: sum.splits)



subsection \<open>Objects\<close>

lemma map_of_replace:
  "map_of (map (\<lambda>(k', v'). if k' = k then (k', v) else (k', v')) ps) =
     (if has_key k ps then (map_of ps)(k \<mapsto> v) else map_of ps)"
  by (induction ps) (auto simp: has_key_def fun_upd_twist)

lemma map_of_insert_index:
  "\<not> has_key k ps \<Longrightarrow> map_of (insert_index k v ps) = (map_of ps)(k \<mapsto> v)"
  by (induction ps) (auto simp: has_key_def fun_upd_twist)

lemma map_of_snoc:
  "\<not> has_key k ps \<Longrightarrow> map_of (ps @ [(k, v)]) = (map_of ps)(k \<mapsto> v)"
  by (induction ps) (auto simp: has_key_def fun_upd_twist)

lemma map_of_js_set:
  "map_of (js_set k v ps) =
     (if k = ''__proto__'' \<and> \<not> has_key k ps then map_of ps else (map_of ps)(k \<mapsto> v))"
  by (simp add: js_set_def map_of_replace map_of_insert_index map_of_snoc del: map_of_append)

lemma keys_replace:
  "map fst (map (\<lambda>(k', v'). if k' = k then (k', v) else (k', v')) ps) = map fst ps"
  by (induction ps) auto

lemma set_insert_index: "set (insert_index k v ps) = insert (k, v) (set ps)"
  by (induction ps) (auto split: if_splits)


lemma has_key_map_of: "has_key k ps = (map_of ps k \<noteq> None)"
  by (simp add: has_key_def map_of_eq_None_iff)

lemma keys_js_set:
  "fst ` set (js_set k v ps) =
     (if k = ''__proto__'' \<and> \<not> has_key k ps then fst ` set ps else insert k (fst ` set ps))"
proof -
  have "fst ` set (js_set k v ps) = dom (map_of (js_set k v ps))"
    by (simp add: dom_map_of_conv_image_fst)
  also have "\<dots> = (if k = ''__proto__'' \<and> \<not> has_key k ps then dom (map_of ps)
                   else insert k (dom (map_of ps)))"
    by (auto simp: map_of_js_set)
  finally show ?thesis
    by (auto simp: dom_map_of_conv_image_fst has_key_def)
qed

lemma distinct_insert_index:
  "distinct (map fst ps) \<Longrightarrow> \<not> has_key k ps \<Longrightarrow> distinct (map fst (insert_index k v ps))"
  by (induction ps) (auto simp: has_key_def set_insert_index)

lemma distinct_js_set:
  "distinct (map fst ps) \<Longrightarrow> distinct (map fst (js_set k v ps))"
  by (auto simp: js_set_def keys_replace distinct_insert_index has_key_def
        simp del: map_map)










subsection \<open>The snapshot of a bulk mark\<close>

lemma keys_snapshot_gen:
  "fst ` set (foldl (\<lambda>localData (sid, st). js_set sid (entry st m t) localData) ob xs)
   = fst ` set ob \<union> (fst ` set xs - {''__proto__''})"
  if "\<not> has_key ''__proto__'' ob"
  using that
proof (induction xs arbitrary: ob)
  case Nil
  then show ?case by simp
next
  case (Cons x xs)
  obtain sid st where x: "x = (sid, st)" by (cases x) auto
  have np: "\<not> has_key ''__proto__'' (js_set sid (entry st m t) ob)"
    using Cons.prems by (auto simp: has_key_def keys_js_set)
  show ?case
    using Cons.IH [OF np] Cons.prems
    by (auto simp: x keys_js_set has_key_def)
qed

lemma keys_snapshot: "fst ` set (snapshot xs m t) = fst ` set xs - {''__proto__''}"
  using keys_snapshot_gen [of "[]" m t xs] by (simp add: snapshot_def has_key_def)

lemma distinct_snapshot_gen:
  "distinct (map fst ob) \<Longrightarrow>
   distinct (map fst (foldl (\<lambda>localData (sid, st). js_set sid (entry st m t) localData) ob xs))"
  by (induction xs arbitrary: ob) (simp_all add: distinct_js_set split_beta)

lemma distinct_snapshot: "distinct (map fst (snapshot xs m t))"
  by (simp add: snapshot_def distinct_snapshot_gen)

lemma map_of_snapshot_gen:
  "\<not> has_key ''__proto__'' ob \<Longrightarrow>
   map_of (foldl (\<lambda>localData (sid, st). js_set sid (entry st m t) localData) ob xs) sid
   = (if sid = ''__proto__'' then None
      else (case map_of (rev xs) sid of
              Some st \<Rightarrow> Some (entry st m t)
            | None \<Rightarrow> map_of ob sid))"
proof (induction xs arbitrary: ob)
  case Nil
  then show ?case by (auto simp: has_key_map_of)
next
  case (Cons x xs)
  obtain k st where x: "x = (k, st)" by (cases x) auto
  have np: "\<not> has_key ''__proto__'' (js_set k (entry st m t) ob)"
    using Cons.prems by (auto simp: has_key_def keys_js_set)
  show ?case
    using Cons.IH [OF np] Cons.prems
    by (auto simp: x map_of_js_set has_key_map_of map_add_def split: option.splits if_splits)
qed

lemma map_of_snapshot:
  "map_of (snapshot xs m t) sid
   = (if sid = ''__proto__'' then None
      else map_option (\<lambda>st. entry st m t) (map_of (rev xs) sid))"
  using map_of_snapshot_gen [of "[]" m t xs sid]
  by (simp add: snapshot_def has_key_def split: option.splits)

subsection \<open>The keys of arrays and strings\<close>

lemma dec_val_snoc: "dec_val (s @ [c]) = 10 * dec_val s + digit_val c"
  by (simp add: dec_val_def)

lemma digit_val_char: "d < 10 \<Longrightarrow> digit_val (char_of (48 + d)) = int d"
proof -
  assume d: "d < 10"
  have "(of_char (char_of (48 + d)) :: int) = int (of_char (char_of (48 + d)))"
    by (simp only: of_nat_of_char)
  also have "\<dots> = int ((48 + d) mod 256)"
    by (simp only: of_char_of)
  also have "\<dots> = 48 + int d"
    using d by simp
  finally show ?thesis
    by (simp add: digit_val_def)
qed

lemma dec_val_show_nat: "dec_val (show_nat n) = int n"
proof (induction n rule: show_nat.induct)
  case (1 n)
  show ?case
  proof (cases "n < 10")
    case True
    then show ?thesis
      using digit_val_char [of n] by (subst show_nat.simps) (simp add: dec_val_def)
  next
    case False
    have "dec_val (show_nat n) = 10 * dec_val (show_nat (n div 10)) + digit_val (char_of (48 + n mod 10))"
      using False by (subst show_nat.simps) (simp add: dec_val_snoc)
    also have "\<dots> = 10 * int (n div 10) + int (n mod 10)"
      using 1 [OF False] digit_val_char [of "n mod 10"] by simp
    also have "\<dots> = int n"
      by (simp add: zdiv_int zmod_int)
    finally show ?thesis .
  qed
qed

lemma inj_show_nat: "inj show_nat"
proof (rule injI)
  fix x y
  assume "show_nat x = show_nat y"
  then have "dec_val (show_nat x) = dec_val (show_nat y)"
    by (rule arg_cong)
  then show "x = y"
    by (simp only: dec_val_show_nat of_nat_eq_iff)
qed

lemma distinct_index_keys: "distinct (map fst (zip (map show_nat [0..<n]) xs))"
proof -
  have "distinct (map show_nat [0..<n])"
    by (simp add: distinct_map inj_on_def inj_show_nat [THEN injD])
  then show ?thesis
    by (simp add: map_fst_zip_take)
qed

lemma distinct_entries:
  "stored_ok (Text v) \<Longrightarrow> entries_of v = Inr ps \<Longrightarrow> distinct (map fst ps)"
  using distinct_index_keys
  by (cases v) (auto simp: stored_ok_def entries_of_def)

subsection \<open>The invariant\<close>

lemma stored_ok_assign:
  "stored_ok (Text v) \<Longrightarrow> assign k a v = Inr v' \<Longrightarrow> stored_ok (Text v')"
  by (cases v) (auto simp: stored_ok_def assign_def distinct_js_set split: if_splits)

lemma cache_ok_parsed:
  assumes "cache_ok w" and "JSON_parse (getItem k w) = Inr v"
  shows "stored_ok (Text v)"
proof (cases "getItem k w")
  case None
  with assms(2) show ?thesis by (auto simp: JSON_parse_def stored_ok_def)
next
  case (Some x)
  have "(k, x) \<in> set (localStorage w)"
    using Some by (simp add: getItem_def map_of_SomeD)
  then have ok: "stored_ok x"
    using assms(1) by (auto simp: cache_ok_def list_all_iff)
  show ?thesis
    using assms(2) Some ok by (cases x) (auto simp: JSON_parse_def stored_ok_def)
qed

lemma cache_ok_put:
  "cache_ok w \<Longrightarrow> stored_ok x \<Longrightarrow> cache_ok (w\<lparr>localStorage := put k x (localStorage w)\<rparr>)"
  by (simp add: cache_ok_def list_all_put)

lemma cache_ok_delete_rows: "cache_ok (snd (delete_rows n cid d w)) = cache_ok w"
  by (simp add: cache_ok_def delete_rows_localStorage)

lemma rows_unique_delete_rows:
  "rows_unique w \<Longrightarrow> rows_unique (snd (delete_rows n cid d w))"
  by (simp add: rows_unique_def delete_rows_records distinct_map_filter)

lemma rows_unique_storage: "rows_unique (w\<lparr>localStorage := L\<rparr>) = rows_unique w"
  by (simp add: rows_unique_def)

lemma exec_invariant:
  assumes "rows_unique w" and "cache_ok w"
  shows "rows_unique (exec c w) \<and> cache_ok (exec c w)"
proof (cases c)
  case (MarkOne e cid sid d st m)
  have rows: "rows_unique (exec c w)"
    using assms(1) by (simp add: MarkOne rows_unique_def markSingleAttendance_records)
  have cache: "cache_ok (exec c w)"
  proof (cases "JSON_parse (getItem (storageKey cid d) w)")
    case (Inl x)
    then show ?thesis
      using assms(2) by (simp add: MarkOne markSingleAttendance_eq)
  next
    case (Inr v)
    show ?thesis
    proof (cases "assign sid (entry st m (now e)) v")
      case (Inl x)
      then show ?thesis
        using assms(2) Inr by (simp add: MarkOne markSingleAttendance_eq)
    next
      case inner: (Inr v')
      have "stored_ok (Text v')"
        using stored_ok_assign [OF cache_ok_parsed [OF assms(2) Inr] inner] .
      then show ?thesis
        using assms(2) Inr inner by (simp add: MarkOne markSingleAttendance_eq cache_ok_put)
    qed
  qed
  from rows cache show ?thesis ..
next
  case (MarkBulk e cid d xs m)
  have ok: "stored_ok (Text (JObj (snapshot xs m (now e))))"
    by (simp add: stored_ok_def distinct_snapshot)
  show ?thesis
    using assms cache_ok_put [OF assms(2) ok, of "storageKey cid d"]
    by (simp add: MarkBulk markAttendance_eq rows_unique_delete_rows rows_unique_storage
          cache_ok_delete_rows)
qed

lemma run_invariant:
  "rows_unique w \<Longrightarrow> cache_ok w \<Longrightarrow> rows_unique (run cs w) \<and> cache_ok (run cs w)"
  by (induction cs arbitrary: w) (simp_all add: exec_invariant)

lemma distinct_map_filter_le1:
  "distinct (map f xs) \<Longrightarrow> length (filter (\<lambda>x. f x = y) xs) \<le> Suc 0"
  by (induction xs) (auto simp: filter_empty_conv image_iff)


lemma rows_unique_count: "rows_unique w \<Longrightarrow> count_rows cid sid d w \<le> 1"
  by (simp add: rows_unique_def count_rows_def distinct_map_filter_le1)

lemma distinct_cached_entries: "cache_ok w \<Longrightarrow> distinct (map fst (cached_entries cid d w))"
proof -
  assume c: "cache_ok w"
  show ?thesis
  proof (cases "getItem (storageKey cid d) w")
    case None
    then show ?thesis by (simp add: cached_entries_def)
  next
    case (Some x)
    show ?thesis
    proof (cases x)
      case (Text v)
      then have "JSON_parse (getItem (storageKey cid d) w) = Inr v"
        using Some by (simp add: JSON_parse_def)
      from cache_ok_parsed [OF c this] show ?thesis
        using Some Text distinct_entries [of v]
        by (cases "entries_of v") (simp_all add: cached_entries_def)
    qed (simp_all add: cached_entries_def Some)
  qed
qed

lemma cache_ok_count: "cache_ok w \<Longrightarrow> count_cached cid sid d w \<le> 1"
  by (simp add: count_cached_def distinct_map_filter_le1 distinct_cached_entries)

lemma filter_key_empty: "k \<notin> fst ` set ps \<Longrightarrow> filter (\<lambda>p. fst p = k) ps = []"
  by (auto simp: filter_empty_conv)

subsection \<open>The functions that never reject\<close>

lemma import_loop_counts:
  "fst (import_loop es i cid xs marker res w) = res\<lparr>success := success res + length xs\<rparr>"
proof (induction xs arbitrary: i res w)
  case Nil
  then show ?case by simp
next
  case (Cons x xs)
  obtain sid d st where x: "x = (sid, d, st)" by (cases x) auto
  obtain b w1 where m: "markSingleAttendance (es i) cid sid d st marker w = (Inr b, w1)"
    using markSingleAttendance_resolves [of "es i" cid sid d st marker w]
    by (cases "markSingleAttendance (es i) cid sid d st marker w") auto
  show ?case
    by (simp add: x m Cons.IH)
qed

lemma getCourseStudents_resolves: "\<exists>students. getCourseStudents join cid = Inr students"
  by (auto simp: getCourseStudents_def Let_def split: reply.splits option.splits)

lemma stats_object_empty: "stats_object t [] = default_stats t"
  by (simp add: stats_object_def default_stats_def count_status_def)

lemma getAttendanceStats_resolves:
  "\<exists>t rs. getAttendanceStats j1 j2 n cid sd ed w = Inr (stats_object t rs)"
proof -
  obtain s1 where s1: "getCourseStudents j1 cid = Inr s1"
    using getCourseStudents_resolves by blast
  obtain s2 where s2: "getCourseStudents j2 cid = Inr s2"
    using getCourseStudents_resolves by blast
  show ?thesis
  proof (cases "stats_records n cid sd ed w")
    case (Inl e)
    then have "getAttendanceStats j1 j2 n cid sd ed w = Inr (stats_object (length s2) [])"
      by (simp add: getAttendanceStats_def s1 s2 stats_object_empty)
    then show ?thesis by blast
  next
    case (Inr rs)
    then have "getAttendanceStats j1 j2 n cid sd ed w = Inr (stats_object (length s1) rs)"
      by (simp add: getAttendanceStats_def s1)
    then show ?thesis by blast
  qed
qed

subsection \<open>A single mark\<close>

lemma not_index_length: "\<not> is_array_index ''length''"
  by (simp add: is_array_index_def is_digit_def)

lemma assign_takes_mark: "(\<exists>v'. assign k a v = Inr v') = takes_mark k v"
  using not_index_length by (cases v) (auto simp: assign_def takes_mark_def)

lemma assign_not_taken: "\<not> takes_mark k v \<Longrightarrow> \<exists>x. assign k a v = Inl x"
  using assign_takes_mark [of k a v] by (cases "assign k a v") auto


lemma markSingleAttendance_refused:
  "JSON_parse (getItem (storageKey cid d) w) = Inl x \<Longrightarrow>
   markSingleAttendance e cid sid d st m w = (Inr False, w)"
  by (simp add: markSingleAttendance_eq)

lemma markSingleAttendance_not_taken:
  "JSON_parse (getItem (storageKey cid d) w) = Inr v \<Longrightarrow>
   assign sid (entry st m (now e)) v = Inl x \<Longrightarrow>
   markSingleAttendance e cid sid d st m w = (Inr False, w)"
  by (simp add: markSingleAttendance_eq)

lemma markSingleAttendance_full:
  "\<not> stores e \<Longrightarrow> markSingleAttendance e cid sid d st m w = (Inr False, w)"
  by (simp add: markSingleAttendance_eq split: sum.splits)

lemma markSingleAttendance_taken:
  "JSON_parse (getItem (storageKey cid d) w) = Inr v \<Longrightarrow>
   assign sid (entry st m (now e)) v = Inr v' \<Longrightarrow> stores e \<Longrightarrow>
   markSingleAttendance e cid sid d st m w
     = (Inr True, w\<lparr>localStorage := put (storageKey cid d) (Text v') (localStorage w)\<rparr>)"
  by (simp add: markSingleAttendance_eq)

lemma markSingleAttendance_returns:
  "fst (markSingleAttendance e cid sid d st m w)
     = Inr (stores e \<and> (\<exists>v. JSON_parse (getItem (storageKey cid d) w) = Inr v \<and> takes_mark sid v))"
proof (cases "JSON_parse (getItem (storageKey cid d) w)")
  case (Inl x)
  then show ?thesis by (simp add: markSingleAttendance_refused)
next
  case (Inr v)
  show ?thesis
  proof (cases "assign sid (entry st m (now e)) v")
    case (Inl x)
    then have "\<not> takes_mark sid v"
      using assign_takes_mark [of sid "entry st m (now e)" v] by auto
    then show ?thesis
      using Inr Inl by (simp add: markSingleAttendance_not_taken)
  next
    case inner: (Inr v')
    then have "takes_mark sid v"
      using assign_takes_mark [of sid "entry st m (now e)" v] by auto
    then show ?thesis
      using Inr inner by (cases "stores e")
        (simp_all add: markSingleAttendance_taken markSingleAttendance_full)
  qed
qed

lemma markSingleAttendance_false_unchanged:
  "fst (markSingleAttendance e cid sid d st m w) = Inr False \<Longrightarrow>
   snd (markSingleAttendance e cid sid d st m w) = w"
  by (auto simp: markSingleAttendance_eq split: sum.splits if_splits)


lemma markSingleAttendance_object:
  assumes "JSON_parse (getItem (storageKey cid d) w) = Inr (JObj ps)" and "stores e"
  shows "markSingleAttendance e cid sid d st m w
     = (Inr True,
        w\<lparr>localStorage := put (storageKey cid d)
             (Text (JObj (js_set sid (entry st m (now e)) ps))) (localStorage w)\<rparr>)"
  using markSingleAttendance_taken [OF assms(1) _ assms(2), of sid st m
      "JObj (js_set sid (entry st m (now e)) ps)"]
  by (simp add: assign_def)

subsection \<open>Decoding the cache\<close>

lemma decode_entries_eq:
  "decode_entries cid d ps =
     (if JNull \<in> snd ` set ps then Inl TypeError else Inr (map (decoded_record cid d) ps))"
proof (induction ps)
  case Nil
  then show ?case by simp
next
  case (Cons p ps)
  obtain sid x where p: "p = (sid, x)" by (cases p) auto
  show ?case
    by (cases "x = JNull") (auto simp: p member_def decoded_record_def Cons.IH)
qed

lemma entries_of_null: "(\<exists>x. entries_of v = Inl x) = (v = JNull)"
  by (cases v) (simp_all add: entries_of_def)

lemma entries_of_exn: "entries_of v = Inl x \<Longrightarrow> x = TypeError"
  by (cases v) (simp_all add: entries_of_def)

lemma getAttendanceRecords_fallback:
  "n \<noteq> Reach \<Longrightarrow> getAttendanceRecords n cid dopt w = read_fallback cid dopt w"
  by (cases n) (simp_all add: getAttendanceRecords_def query_records_def)

lemma read_fallback_text:
  "d \<noteq> [] \<Longrightarrow> getItem (storageKey cid d) w = Some (Text v) \<Longrightarrow>
   read_fallback cid (Some d) w =
     (case entries_of v of
        Inl x \<Rightarrow> Inl TypeError
      | Inr ps \<Rightarrow> if JNull \<in> snd ` set ps then Inl TypeError
                  else Inr (map (\<lambda>p. Rec (decoded_record cid d p)) ps))"
  by (auto simp: read_fallback_def truthy_def JSON_parse_def decode_local_def decode_entries_eq
        dest: entries_of_exn split: sum.splits)

subsection \<open>The other entries of a marked object\<close>






subsection \<open>Percentages\<close>

lemma percent_none: "percent 0 n = 0"
  by (simp add: percent_def double_div_def double_mul_def nearest_double_def double_value_def)

lemma nearest_double_one:
  assumes "0 < n"
  shows "nearest_double n n = (4503599627370496, 4503599627370496)"
proof -
  have "round_ties_even (n * 2 ^ 52) n = 2 ^ 52"
    using assms by (simp add: round_ties_even_def Let_def)
  then show ?thesis
    using assms by (simp add: nearest_double_def Let_def)
qed

lemma percent_all: "0 < n \<Longrightarrow> percent n n = 100"
proof -
  assume n: "0 < n"
  have b: "bitlen 450359962737049600 = 59" "bitlen 4503599627370496 = 53"
    by (simp_all add: bitlen.simps)
  have "nearest_double 450359962737049600 4503599627370496 = (7036874417766400, 70368744177664)"
    by (simp add: nearest_double_def b round_ties_even_def Let_def)
  then show ?thesis
    using n nearest_double_one [of "int n"]
    by (simp add: percent_def double_div_def double_mul_def double_value_def)
qed

section \<open>The claims\<close>

subsection \<open>C1: one record per (course, student, date)\<close>

text \<open>
  C1. From a state whose table has no two rows for one (course, student, date) and whose
  cached objects have each key once, every sequence of \<^verbatim>\<open>markSingleAttendance\<close> and
  \<^verbatim>\<open>markAttendance\<close> calls, in any environment, leaves at most one row of the table
  and at most one entry of the cached value for each (course, student, date). A bulk
  payload that names a student twice is covered: its snapshot keeps one property per
  student, and its insert is refused as a whole.
\<close>

theorem marks_keep_one_record_per_triple:
  assumes "rows_unique w" and "cache_ok w"
  shows "count_rows cid sid d (run cs w) \<le> 1 \<and> count_cached cid sid d (run cs w) \<le> 1"
  using run_invariant [OF assms, of cs] rows_unique_count cache_ok_count by blast

text \<open>
  The witness of C1: a bulk mark that names student A twice, followed by a single mark of
  A. The bulk mark alone leaves no row for A (its insert is refused) and one cached
  property, the last of the two.
\<close>

theorem marks_keep_one_record_per_triple_witness:
  "rows_unique sample_world \<and> cache_ok sample_world
   \<and> count_rows ''C1'' ''A'' ''2024-01-16'' (run duplicate_calls sample_world) \<le> 1
   \<and> count_cached ''C1'' ''A'' ''2024-01-16'' (run duplicate_calls sample_world) \<le> 1
   \<and> count_rows ''C1'' ''A'' ''2024-01-16'' (exec (hd duplicate_calls) sample_world) = 0
   \<and> count_cached ''C1'' ''A'' ''2024-01-16'' (exec (hd duplicate_calls) sample_world) = 1"
proof -
  have b: "exec (hd duplicate_calls) sample_world
      = \<lparr>attendance_records = sample_rows, next_id = 3,
         localStorage = localStorage sample_world @
           [(''attendance_C1_2024-01-16'', Text (JObj [(''A'', entry absent ''I1'' ''t1'')]))]\<rparr>"
    by (simp add: duplicate_calls_def up_def sample_world_def sample_rows_def
          markAttendance_eq delete_rows_def snapshot_def js_set_def has_key_def storageKey_def)
  have e: "count_rows ''C1'' ''A'' ''2024-01-16'' (exec (hd duplicate_calls) sample_world) = 0"
    "count_cached ''C1'' ''A'' ''2024-01-16'' (exec (hd duplicate_calls) sample_world) = 1"
    unfolding b
    by (simp_all add: count_rows_def count_cached_def cached_entries_def entries_of_def
          sample_world_def sample_rows_def triple_def getItem_def storageKey_def)
  have u: "rows_unique sample_world"
    by (simp add: rows_unique_def sample_world_def sample_rows_def triple_def)
  have c: "cache_ok sample_world"
    by (simp add: cache_ok_def sample_world_def sample_cache_def stored_ok_def)
  show ?thesis
    using u c e marks_keep_one_record_per_triple [OF u c, of "''C1''" "''A''" "''2024-01-16''"
        duplicate_calls]
    by simp
qed

subsection \<open>C2: a bulk mark and the records of its date\<close>

text \<open>
  C2. What \<^verbatim>\<open>markAttendance\<close> does to the date it marks, for every payload and every
  state. It returns \<^verbatim>\<open>true\<close> exactly when the write to \<^verbatim>\<open>localStorage\<close>
  completes, and the cached entry of the date is then the snapshot of the payload, whose
  keys are the students of the payload other than \<^verbatim>\<open>__proto__\<close>. When its delete
  reaches the table, no row of the date is left afterwards, whatever the payload: the
  rows of the date are deleted and the insert that follows is refused, because its rows
  name the column \<^verbatim>\<open>updated_at\<close>. When its delete does not reach the table, the rows
  of the date stay as they were, those of students outside the payload included. So the
  date never ends with the records of the payload.
\<close>

theorem markAttendance_loses_date:
  "fst (markAttendance e cid d attendanceData marker w) = Inr (stores e)
   \<and> (stores e \<longrightarrow>
        getItem (storageKey cid d) (snd (markAttendance e cid d attendanceData marker w))
          = Some (Text (JObj (snapshot attendanceData marker (now e))))
        \<and> fst ` set (snapshot attendanceData marker (now e))
            = fst ` set attendanceData - {''__proto__''})
   \<and> (stores e \<and> net1 e = Reach \<longrightarrow>
        filter (\<lambda>r. course_id r = cid \<and> date r = d)
          (attendance_records (snd (markAttendance e cid d attendanceData marker w))) = [])
   \<and> (net1 e \<noteq> Reach \<longrightarrow>
        attendance_records (snd (markAttendance e cid d attendanceData marker w))
          = attendance_records w)"
proof -
  have r: "fst (markAttendance e cid d attendanceData marker w) = Inr (stores e)"
    by (simp add: markAttendance_eq)
  have c: "stores e \<Longrightarrow>
        getItem (storageKey cid d) (snd (markAttendance e cid d attendanceData marker w))
          = Some (Text (JObj (snapshot attendanceData marker (now e))))"
    by (simp add: markAttendance_eq delete_rows_storage_update getItem_def map_of_put)
  have t: "stores e \<and> net1 e = Reach \<Longrightarrow>
        filter (\<lambda>r. course_id r = cid \<and> date r = d)
          (attendance_records (snd (markAttendance e cid d attendanceData marker w))) = []"
    by (simp add: markAttendance_eq delete_rows_def)
  have u: "net1 e \<noteq> Reach \<Longrightarrow>
        attendance_records (snd (markAttendance e cid d attendanceData marker w))
          = attendance_records w"
    by (simp add: markAttendance_eq delete_rows_records)
  from r c t u keys_snapshot [of attendanceData marker "now e"] show ?thesis
    by blast
qed

text \<open>
  The witness of C2: the table holds the rows of students A, B and C for the date, the
  payload names A and B, every request reaches the table. The call returns
  \<^verbatim>\<open>true\<close>, the cache holds A and B, and the table holds no row at all.
\<close>

theorem markAttendance_loses_date_witness:
  "stores up \<and> net1 up = Reach
   \<and> map student_id (filter (\<lambda>r. course_id r = ''C1'' \<and> date r = ''2024-01-15'')
        (attendance_records sample_world)) = [''A'', ''B'', ''C'']
   \<and> fst (markAttendance up ''C1'' ''2024-01-15'' [(''A'', present), (''B'', late)] ''I1''
            sample_world) = Inr True
   \<and> filter (\<lambda>r. course_id r = ''C1'' \<and> date r = ''2024-01-15'')
        (attendance_records
          (snd (markAttendance up ''C1'' ''2024-01-15'' [(''A'', present), (''B'', late)] ''I1''
                  sample_world))) = []
   \<and> fst ` set (snapshot [(''A'', present), (''B'', late)] ''I1'' (now up)) = {''A'', ''B''}"
  using markAttendance_loses_date [of up "''C1''" "''2024-01-15''"
      "[(''A'', present), (''B'', late)]" "''I1''" sample_world]
  by (simp add: up_def sample_world_def sample_rows_def)

subsection \<open>C3: a write whose remote requests throw\<close>

text \<open>
  C3, as amended. When the first remote request of a marking call rejects, no other
  request is made and the table stays as it was. \<^verbatim>\<open>markAttendance\<close> then returns
  \<^verbatim>\<open>true\<close> exactly when the write to \<^verbatim>\<open>localStorage\<close> completes, and the entry of
  (course, date) is then the snapshot of the payload: one mark per student of the payload
  other than \<^verbatim>\<open>__proto__\<close>, the last one of a student named twice.
  \<^verbatim>\<open>markSingleAttendance\<close> returns \<^verbatim>\<open>true\<close> exactly when the write completes and
  the cached text is absent, empty or the JSON text of a value that takes the mark; the
  entry is then that value after the assignment, which for an object and a student other
  than \<^verbatim>\<open>__proto__\<close> maps the student to the new mark. A call that returns
  \<^verbatim>\<open>false\<close> leaves the cache as it was.
\<close>

theorem mark_remote_down:
  assumes "net1 e = Reject"
  shows
    "fst (markAttendance e cid d attendanceData marker w) = Inr (stores e)
     \<and> (stores e \<longrightarrow>
          snd (markAttendance e cid d attendanceData marker w)
            = w\<lparr>localStorage := put (storageKey cid d)
                   (Text (JObj (snapshot attendanceData marker (now e)))) (localStorage w)\<rparr>)
     \<and> (\<not> stores e \<longrightarrow> snd (markAttendance e cid d attendanceData marker w) = w)
     \<and> (\<forall>s. map_of (snapshot attendanceData marker (now e)) s
              = (if s = ''__proto__'' then None
                 else map_option (\<lambda>st. entry st marker (now e)) (map_of (rev attendanceData) s)))
     \<and> fst (markSingleAttendance e cid sid d st marker w)
         = Inr (stores e
                \<and> (\<exists>v. JSON_parse (getItem (storageKey cid d) w) = Inr v \<and> takes_mark sid v))
     \<and> (\<forall>v. stores e \<and> JSON_parse (getItem (storageKey cid d) w) = Inr v \<and> takes_mark sid v
            \<longrightarrow> (\<exists>v'. assign sid (entry st marker (now e)) v = Inr v'
                   \<and> snd (markSingleAttendance e cid sid d st marker w)
                       = w\<lparr>localStorage := put (storageKey cid d) (Text v') (localStorage w)\<rparr>))
     \<and> (\<forall>ps. stores e \<and> JSON_parse (getItem (storageKey cid d) w) = Inr (JObj ps)
               \<and> sid \<noteq> ''__proto__''
            \<longrightarrow> (\<exists>ps'. getItem (storageKey cid d)
                          (snd (markSingleAttendance e cid sid d st marker w))
                        = Some (Text (JObj ps'))
                    \<and> map_of ps' sid = Some (entry st marker (now e))))
     \<and> (fst (markSingleAttendance e cid sid d st marker w) = Inr False
          \<longrightarrow> snd (markSingleAttendance e cid sid d st marker w) = w)"
proof -
  have b1: "fst (markAttendance e cid d attendanceData marker w) = Inr (stores e)"
    by (simp add: markAttendance_eq)
  have b2: "stores e \<longrightarrow>
          snd (markAttendance e cid d attendanceData marker w)
            = w\<lparr>localStorage := put (storageKey cid d)
                   (Text (JObj (snapshot attendanceData marker (now e)))) (localStorage w)\<rparr>"
    using assms by (simp add: markAttendance_eq delete_rows_def)
  have b3: "\<not> stores e \<longrightarrow> snd (markAttendance e cid d attendanceData marker w) = w"
    by (simp add: markAttendance_eq)
  have b4: "\<forall>s. map_of (snapshot attendanceData marker (now e)) s
              = (if s = ''__proto__'' then None
                 else map_option (\<lambda>st. entry st marker (now e)) (map_of (rev attendanceData) s))"
    by (simp only: map_of_snapshot simp_thms)
  have s1: "fst (markSingleAttendance e cid sid d st marker w)
         = Inr (stores e
                \<and> (\<exists>v. JSON_parse (getItem (storageKey cid d) w) = Inr v \<and> takes_mark sid v))"
    by (rule markSingleAttendance_returns)
  have s2: "\<forall>v. stores e \<and> JSON_parse (getItem (storageKey cid d) w) = Inr v \<and> takes_mark sid v
            \<longrightarrow> (\<exists>v'. assign sid (entry st marker (now e)) v = Inr v'
                   \<and> snd (markSingleAttendance e cid sid d st marker w)
                       = w\<lparr>localStorage := put (storageKey cid d) (Text v') (localStorage w)\<rparr>)"
  proof (intro allI impI)
    fix v
    assume h: "stores e \<and> JSON_parse (getItem (storageKey cid d) w) = Inr v \<and> takes_mark sid v"
    then obtain v' where a: "assign sid (entry st marker (now e)) v = Inr v'"
      using assign_takes_mark [of sid "entry st marker (now e)" v] by blast
    have "snd (markSingleAttendance e cid sid d st marker w)
            = w\<lparr>localStorage := put (storageKey cid d) (Text v') (localStorage w)\<rparr>"
      using h a by (simp add: markSingleAttendance_taken)
    with a show "\<exists>v'. assign sid (entry st marker (now e)) v = Inr v'
                   \<and> snd (markSingleAttendance e cid sid d st marker w)
                       = w\<lparr>localStorage := put (storageKey cid d) (Text v') (localStorage w)\<rparr>"
      by blast
  qed
  have s3: "\<forall>ps. stores e \<and> JSON_parse (getItem (storageKey cid d) w) = Inr (JObj ps)
               \<and> sid \<noteq> ''__proto__''
            \<longrightarrow> (\<exists>ps'. getItem (storageKey cid d)
                          (snd (markSingleAttendance e cid sid d st marker w))
                        = Some (Text (JObj ps'))
                    \<and> map_of ps' sid = Some (entry st marker (now e)))"
  proof (intro allI impI)
    fix ps
    assume h: "stores e \<and> JSON_parse (getItem (storageKey cid d) w) = Inr (JObj ps)
               \<and> sid \<noteq> ''__proto__''"
    have "getItem (storageKey cid d) (snd (markSingleAttendance e cid sid d st marker w))
            = Some (Text (JObj (js_set sid (entry st marker (now e)) ps)))"
      using h by (simp add: markSingleAttendance_object getItem_put)
    moreover have "map_of (js_set sid (entry st marker (now e)) ps) sid
            = Some (entry st marker (now e))"
      using h by (simp add: map_of_js_set)
    ultimately show "\<exists>ps'. getItem (storageKey cid d)
                          (snd (markSingleAttendance e cid sid d st marker w))
                        = Some (Text (JObj ps'))
                    \<and> map_of ps' sid = Some (entry st marker (now e))"
      by blast
  qed
  have s4: "fst (markSingleAttendance e cid sid d st marker w) = Inr False
          \<longrightarrow> snd (markSingleAttendance e cid sid d st marker w) = w"
    by (simp add: markSingleAttendance_false_unchanged)
  from b1 b2 b3 b4 s1 s2 s3 s4 show ?thesis
    by (intro conjI)
qed

text \<open>
  The witness of C3: every request rejected, the cache holding the marks of A, B and C.
  The bulk mark of A and B and the single mark of S1 both return \<^verbatim>\<open>true\<close>; the single
  mark adds S1 after A, B and C.
\<close>

theorem mark_remote_down_witness:
  "net1 down = Reject \<and> stores down
   \<and> JSON_parse (getItem (storageKey ''C1'' ''2024-01-15'') sample_world) = Inr (JObj sample_cache)
   \<and> takes_mark ''S1'' (JObj sample_cache)
   \<and> fst (markAttendance down ''C1'' ''2024-01-15'' [(''A'', present), (''B'', late)] ''I1''
            sample_world) = Inr True
   \<and> fst (markSingleAttendance down ''C1'' ''S1'' ''2024-01-15'' present ''I1'' sample_world)
       = Inr True
   \<and> snd (markSingleAttendance down ''C1'' ''S1'' ''2024-01-15'' present ''I1'' sample_world)
       = sample_world\<lparr>localStorage :=
           [(''attendance_C1_2024-01-15'',
             Text (JObj (sample_cache @ [(''S1'', entry present ''I1'' (now down))])))]\<rparr>"
proof -
  have n: "net1 down = Reject" and s: "stores down"
    by (simp_all add: down_def)
  have p: "JSON_parse (getItem (storageKey ''C1'' ''2024-01-15'') sample_world)
             = Inr (JObj sample_cache)"
    by (simp add: JSON_parse_def getItem_def storageKey_def sample_world_def)
  have t: "takes_mark ''S1'' (JObj sample_cache)"
    by (simp add: takes_mark_def)
  have a: "assign ''S1'' (entry present ''I1'' (now down)) (JObj sample_cache)
             = Inr (JObj (sample_cache @ [(''S1'', entry present ''I1'' (now down))]))"
    by (simp add: assign_def js_set_def has_key_def sample_cache_def is_array_index_def
          is_digit_def)
  have l: "put (storageKey ''C1'' ''2024-01-15'') x (localStorage sample_world)
             = [(''attendance_C1_2024-01-15'', x)]" for x
    by (simp add: storageKey_def sample_world_def)
  show ?thesis
    using mark_remote_down [OF n, of "''C1''" "''2024-01-15''" "[(''A'', present), (''B'', late)]"
        "''I1''" sample_world "''S1''" present] n s p t a
    by (simp add: l)
qed

text \<open>
  C3 as stated fails: with every request rejected and a cache entry that is not JSON,
  \<^verbatim>\<open>markSingleAttendance\<close> returns \<^verbatim>\<open>false\<close> and writes nothing.
\<close>

theorem markSingleAttendance_unparseable_cache:
  "markSingleAttendance down ''C1'' ''S1'' ''2024-01-15'' present ''I1'' corrupt_world
     = (Inr False, corrupt_world)"
  by (simp add: markSingleAttendance_def down_def corrupt_world_def JSON_parse_def getItem_def
        storageKey_def)

subsection \<open>C4: reading when the remote read fails\<close>

text \<open>
  C4, as amended. When the remote read rejects or answers with an error,
  \<^verbatim>\<open>getAttendanceRecords\<close> resolves to the empty list for a date that is omitted or the
  empty string, whatever the cache holds. For any other date it reads the cache entry of
  (course, date): with no entry or an empty text it resolves to the empty list; with a
  text that is not JSON it rejects with a \<^verbatim>\<open>SyntaxError\<close>; with the text
  \<^verbatim>\<open>null\<close>, or a value one of whose entries is \<^verbatim>\<open>null\<close>, it rejects with a
  \<^verbatim>\<open>TypeError\<close>; and otherwise it resolves to one record per entry of the value, in
  the order of the entries, keyed by the entry's key and carrying the status and the
  marker found in the entry. For an entry written by the service these are the status
  and the marker of the mark.
\<close>

theorem read_fallback_decodes_cache:
  assumes "n \<noteq> Reach"
  shows
    "getAttendanceRecords n cid None w = Inr []
     \<and> getAttendanceRecords n cid (Some []) w = Inr []
     \<and> (d \<noteq> [] \<longrightarrow>
          (getItem (storageKey cid d) w = None \<or> getItem (storageKey cid d) w = Some Empty
             \<longrightarrow> getAttendanceRecords n cid (Some d) w = Inr [])
          \<and> (getItem (storageKey cid d) w = Some Unparseable
             \<longrightarrow> getAttendanceRecords n cid (Some d) w = Inl SyntaxError)
          \<and> (getItem (storageKey cid d) w = Some (Text JNull)
             \<longrightarrow> getAttendanceRecords n cid (Some d) w = Inl TypeError)
          \<and> (\<forall>v ps. getItem (storageKey cid d) w = Some (Text v) \<and> entries_of v = Inr ps
                \<longrightarrow> getAttendanceRecords n cid (Some d) w
                      = (if JNull \<in> snd ` set ps then Inl TypeError
                         else Inr (map (\<lambda>p. Rec (decoded_record cid d p)) ps))))
     \<and> decoded_record cid d (sid, entry st marker t)
         = \<lparr>ar_id = cid @ ''_'' @ sid @ ''_'' @ d, courseId = cid, studentId = sid, ar_date = d,
            ar_status = Some (JStr (status_text st)), ar_markedBy = Some (JStr marker)\<rparr>"
proof -
  note f = getAttendanceRecords_fallback [OF assms]
  have a: "getAttendanceRecords n cid None w = Inr []"
    by (simp add: f read_fallback_def truthy_def)
  have b: "getAttendanceRecords n cid (Some []) w = Inr []"
    by (simp add: f read_fallback_def truthy_def)
  have c1: "d \<noteq> [] \<Longrightarrow>
      getItem (storageKey cid d) w = None \<or> getItem (storageKey cid d) w = Some Empty \<Longrightarrow>
      getAttendanceRecords n cid (Some d) w = Inr []"
    by (auto simp: f read_fallback_def truthy_def JSON_parse_def decode_local_def entries_of_def)
  have c2: "d \<noteq> [] \<Longrightarrow> getItem (storageKey cid d) w = Some Unparseable \<Longrightarrow>
      getAttendanceRecords n cid (Some d) w = Inl SyntaxError"
    by (simp add: f read_fallback_def truthy_def JSON_parse_def)
  have c3: "d \<noteq> [] \<Longrightarrow> getItem (storageKey cid d) w = Some (Text JNull) \<Longrightarrow>
      getAttendanceRecords n cid (Some d) w = Inl TypeError"
    by (simp add: f read_fallback_text entries_of_def)
  have c4: "d \<noteq> [] \<Longrightarrow> getItem (storageKey cid d) w = Some (Text v) \<and> entries_of v = Inr ps \<Longrightarrow>
      getAttendanceRecords n cid (Some d) w
        = (if JNull \<in> snd ` set ps then Inl TypeError
           else Inr (map (\<lambda>p. Rec (decoded_record cid d p)) ps))" for v ps
    by (simp add: f read_fallback_text)
  have e: "decoded_record cid d (sid, entry st marker t)
         = \<lparr>ar_id = cid @ ''_'' @ sid @ ''_'' @ d, courseId = cid, studentId = sid, ar_date = d,
            ar_status = Some (JStr (status_text st)), ar_markedBy = Some (JStr marker)\<rparr>"
    by (simp add: decoded_record_def entry_def property_def)
  from a b c1 c2 c3 c4 e show ?thesis
    by blast
qed

text \<open>
  The witness of C4: the three cached marks of the sample state, read while the remote
  read rejects, and a date with no entry, read while the remote read answers with an
  error.
\<close>

theorem read_fallback_decodes_cache_witness:
  "Reject \<noteq> Reach \<and> ''2024-01-15'' \<noteq> []
   \<and> getItem (storageKey ''C1'' ''2024-01-15'') sample_world = Some (Text (JObj sample_cache))
   \<and> entries_of (JObj sample_cache) = Inr sample_cache
   \<and> JNull \<notin> snd ` set sample_cache
   \<and> getAttendanceRecords Reject ''C1'' (Some ''2024-01-15'') sample_world
       = Inr [Rec \<lparr>ar_id = ''C1_A_2024-01-15'', courseId = ''C1'', studentId = ''A'',
                    ar_date = ''2024-01-15'', ar_status = Some (JStr ''present''),
                    ar_markedBy = Some (JStr ''I1'')\<rparr>,
              Rec \<lparr>ar_id = ''C1_B_2024-01-15'', courseId = ''C1'', studentId = ''B'',
                    ar_date = ''2024-01-15'', ar_status = Some (JStr ''absent''),
                    ar_markedBy = Some (JStr ''I1'')\<rparr>,
              Rec \<lparr>ar_id = ''C1_C_2024-01-15'', courseId = ''C1'', studentId = ''C'',
                    ar_date = ''2024-01-15'', ar_status = Some (JStr ''absent''),
                    ar_markedBy = Some (JStr ''I1'')\<rparr>]
   \<and> getItem (storageKey ''C1'' ''2024-01-17'') sample_world = None
   \<and> getAttendanceRecords Fail ''C1'' (Some ''2024-01-17'') sample_world = Inr []"
proof -
  have g: "getItem (storageKey ''C1'' ''2024-01-15'') sample_world = Some (Text (JObj sample_cache))"
    by (simp add: getItem_def sample_world_def storageKey_def)
  have en: "entries_of (JObj sample_cache) = Inr sample_cache"
    by (simp add: entries_of_def)
  have nn: "JNull \<notin> snd ` set sample_cache"
    by (simp add: sample_cache_def entry_def)
  have h: "getItem (storageKey ''C1'' ''2024-01-17'') sample_world = None"
    by (simp add: getItem_def sample_world_def storageKey_def)
  have m: "map (\<lambda>p. Rec (decoded_record ''C1'' ''2024-01-15'' p)) sample_cache
      = [Rec \<lparr>ar_id = ''C1_A_2024-01-15'', courseId = ''C1'', studentId = ''A'',
                    ar_date = ''2024-01-15'', ar_status = Some (JStr ''present''),
                    ar_markedBy = Some (JStr ''I1'')\<rparr>,
              Rec \<lparr>ar_id = ''C1_B_2024-01-15'', courseId = ''C1'', studentId = ''B'',
                    ar_date = ''2024-01-15'', ar_status = Some (JStr ''absent''),
                    ar_markedBy = Some (JStr ''I1'')\<rparr>,
              Rec \<lparr>ar_id = ''C1_C_2024-01-15'', courseId = ''C1'', studentId = ''C'',
                    ar_date = ''2024-01-15'', ar_status = Some (JStr ''absent''),
                    ar_markedBy = Some (JStr ''I1'')\<rparr>]"
    by (simp add: sample_cache_def decoded_record_def entry_def property_def status_text_def)
  have r: "Reject \<noteq> Reach" and fl: "Fail \<noteq> Reach"
    by simp_all
  show ?thesis
    using read_fallback_decodes_cache [OF r, where d = "''2024-01-15''" and cid = "''C1''"
        and w = sample_world]
      read_fallback_decodes_cache [OF fl, where d = "''2024-01-17''" and cid = "''C1''"
        and w = sample_world]
      g en nn h m
    by simp
qed

text \<open>
  C4 as stated fails for the empty date string: \<^verbatim>\<open>if (date)\<close> is false, so the
  fallback resolves to the empty list although the key \<^verbatim>\<open>attendance_C1_\<close> holds a
  mark that decodes to one record.
\<close>

theorem read_fallback_skips_empty_date:
  "getAttendanceRecords Reject ''C1'' (Some []) undated_world = Inr []
   \<and> getItem (storageKey ''C1'' []) undated_world
       = Some (Text (JObj [(''S1'', entry present ''I1'' ''2024-01-15T09:00:00.000Z'')]))
   \<and> decode_local ''C1'' [] (JObj [(''S1'', entry present ''I1'' ''2024-01-15T09:00:00.000Z'')])
       = Inr [\<lparr>ar_id = ''C1_S1_'', courseId = ''C1'', studentId = ''S1'', ar_date = [],
               ar_status = Some (JStr ''present''), ar_markedBy = Some (JStr ''I1'')\<rparr>]"
  by (simp add: getAttendanceRecords_def query_records_def read_fallback_def truthy_def
        undated_world_def getItem_def storageKey_def decode_local_def entries_of_def
        member_def property_def entry_def status_text_def)

subsection \<open>C5: the roster fails soft\<close>

text \<open>
  C5. When the enrollment join rejects, answers with an error or yields no student,
  \<^verbatim>\<open>getCourseStudents\<close> resolves to the fixed roster \<open>mockStudents\<close>, which has five
  entries with pairwise different identifiers; and whatever the join answers, the
  function resolves and never rejects.
\<close>

theorem getCourseStudents_fail_soft:
  "(roster_unavailable join \<longrightarrow> getCourseStudents join cid = Inr (map Some mockStudents))
   \<and> (\<exists>students. getCourseStudents join cid = Inr students)
   \<and> length mockStudents = 5
   \<and> distinct (map student_uuid mockStudents)"
  by (auto simp: roster_unavailable_def getCourseStudents_def mockStudents_def Let_def
           split: reply.splits option.splits)

text \<open>
  The witness of C5: an empty join, a join that answers with an error, a join that rejects.
\<close>

theorem getCourseStudents_fail_soft_witness:
  "roster_unavailable (Reply (Some []) None)
   \<and> getCourseStudents (Reply (Some []) None) ''C1'' = Inr (map Some mockStudents)
   \<and> roster_unavailable (Reply None (Some PostgrestError))
   \<and> getCourseStudents (Reply None (Some PostgrestError)) ''C1'' = Inr (map Some mockStudents)
   \<and> roster_unavailable Rejects
   \<and> getCourseStudents Rejects ''C1'' = Inr (map Some mockStudents)"
  using getCourseStudents_fail_soft [of "Reply (Some []) None" "''C1''"]
    getCourseStudents_fail_soft [of "Reply None (Some PostgrestError)" "''C1''"]
    getCourseStudents_fail_soft [of Rejects "''C1''"]
  by (simp add: roster_unavailable_def)

subsection \<open>C6: marking twice is marking once\<close>




subsection \<open>C7: the attendance rate\<close>

text \<open>
  C7, as amended. The object \<^verbatim>\<open>getAttendanceStats\<close> of the service resolves to has
  \<^verbatim>\<open>attendanceRate\<close> 0 when it counted no record and otherwise the double
  \<^verbatim>\<open>((present + late) / totalRecords) * 100\<close>: the quotient rounded to a double, times
  100, rounded to a double, and not rounded to a decimal. It is 0 when no record counts
  and 100 when all do. The function always resolves, to the statistics of some record
  list; with no record every count of records and both rates are 0, and
  \<^verbatim>\<open>totalStudents\<close> is then 5 when the roster is unavailable, since the roster falls
  back to \<open>mockStudents\<close>. The rounding to one decimal is that of the course card, whose
  own \<^verbatim>\<open>getAttendanceStats\<close> passes the same double through \<^verbatim>\<open>toFixed(1)\<close> and
  shows \<^verbatim>\<open>'0'\<close> when nothing is marked.
\<close>

theorem service_attendance_rate:
  "map_of (stats_object t rs) ''attendanceRate''
     = Some (Num (if length rs = 0 then 0
                  else percent (count_status present rs + count_status late rs) (length rs)))
   \<and> (count_status present rs + count_status late rs = 0 \<longrightarrow>
        map_of (stats_object t rs) ''attendanceRate'' = Some (Num 0))
   \<and> (rs \<noteq> [] \<and> count_status present rs + count_status late rs = length rs \<longrightarrow>
        map_of (stats_object t rs) ''attendanceRate'' = Some (Num 100))
   \<and> stats_object t [] = default_stats t
   \<and> (\<exists>t' rs'. getAttendanceStats j1 j2 n cid sd ed w = Inr (stats_object t' rs'))
   \<and> (roster_unavailable j1 \<and> stats_records n cid sd ed w = Inr [] \<longrightarrow>
        getAttendanceStats j1 j2 n cid sd ed w = Inr (default_stats 5))
   \<and> map_of (CourseCard_getAttendanceStats toFixed1 students records) ''attendanceRate''
       = Some (Str (if length records = 0 then ''0''
                    else toFixed1 (percent (count_out present records + count_out late records)
                                           (length records))))"
proof -
  have a: "map_of (stats_object t rs) ''attendanceRate''
     = Some (Num (if length rs = 0 then 0
                  else percent (count_status present rs + count_status late rs) (length rs)))"
    by (simp add: stats_object_def Let_def)
  have a0: "count_status present rs + count_status late rs = 0 \<longrightarrow>
        map_of (stats_object t rs) ''attendanceRate'' = Some (Num 0)"
    by (simp add: stats_object_def Let_def percent_none)
  have a1: "rs \<noteq> [] \<and> count_status present rs + count_status late rs = length rs \<longrightarrow>
        map_of (stats_object t rs) ''attendanceRate'' = Some (Num 100)"
    by (simp add: stats_object_def Let_def percent_all)
  have b: "roster_unavailable j1 \<Longrightarrow> getCourseStudents j1 cid = Inr (map Some mockStudents)"
    by (auto simp: roster_unavailable_def getCourseStudents_def Let_def
          split: reply.splits option.splits)
  have c: "length mockStudents = 5"
    by (simp add: mockStudents_def)
  have d: "roster_unavailable j1 \<and> stats_records n cid sd ed w = Inr [] \<longrightarrow>
        getAttendanceStats j1 j2 n cid sd ed w = Inr (default_stats 5)"
    using b c by (auto simp: getAttendanceStats_def stats_object_empty)
  have e: "map_of (CourseCard_getAttendanceStats toFixed1 students records) ''attendanceRate''
       = Some (Str (if length records = 0 then ''0''
                    else toFixed1 (percent (count_out present records + count_out late records)
                                           (length records))))"
    by (simp add: CourseCard_getAttendanceStats_def Let_def)
  show ?thesis
    using a a0 a1 d e stats_object_empty [of t]
      getAttendanceStats_resolves [of j1 j2 n cid sd ed w] by blast
qed

text \<open>
  The witness of C7: no student enrolled and no record of the course; the rate of a
  single present record; the rate of one absent record; and the double that stands for
  29 records of 100, which is 28.999999999999996.
\<close>

theorem service_attendance_rate_witness:
  "roster_unavailable (Reply (Some []) None)
   \<and> stats_records Reach ''C9'' None None sample_world = Inr []
   \<and> getAttendanceStats (Reply (Some []) None) Rejects Reach ''C9'' None None sample_world
       = Inr [(''totalStudents'', Num 5), (''totalRecords'', Num 0), (''present'', Num 0),
              (''absent'', Num 0), (''late'', Num 0), (''presentPercentage'', Num 0),
              (''attendanceRate'', Num 0)]
   \<and> map_of (stats_object 5 [Some (JStr ''present'')]) ''attendanceRate'' = Some (Num 100)
   \<and> percent 29 100 = 8162774324609023 / 281474976710656"
proof -
  have r: "roster_unavailable (Reply (Some []) None)"
    by (simp add: roster_unavailable_def)
  have s: "stats_records Reach ''C9'' None None sample_world = Inr []"
    by (simp add: stats_records_def query_status_def sample_world_def sample_rows_def truthy_def)
  have c: "count_status present [Some (JStr ''present'')]
             + count_status late [Some (JStr ''present'')] = length [Some (JStr ''present'')]"
    by (simp add: count_status_def status_text_def)
  have p: "percent 29 100 = 8162774324609023 / 281474976710656"
    by (simp add: percent_def double_value_def double_mul_def double_div_def nearest_double_def
          round_ties_even_def bitlen.simps Let_def)
  have ne: "[Some (JStr ''present'')] \<noteq> []"
    by simp
  note t = service_attendance_rate [where t = 5 and rs = "[Some (JStr ''present'')]"
      and ?j1.0 = "Reply (Some []) None" and ?j2.0 = Rejects and n = Reach and cid = "''C9''"
      and sd = None and ed = None and w = sample_world and ?toFixed1.0 = "\<lambda>x. []"
      and students = "[] :: unit list" and records = "[]"]
  have all: "map_of (stats_object 5 [Some (JStr ''present'')]) ''attendanceRate''
               = Some (Num 100)"
    using t c ne by blast
  have none: "getAttendanceStats (Reply (Some []) None) Rejects Reach ''C9'' None None
                sample_world = Inr (default_stats 5)"
    using t r s by blast
  from r s all none p show ?thesis
    by (simp add: default_stats_def)
qed

text \<open>
  C7 as stated fails on the precision: with one present mark among three records the
  service resolves to the rate 33.33333333333333, the double
  2345624805922133 / 2^46, and ten times that is not an integer.
\<close>

theorem service_rate_not_rounded:
  "getAttendanceStats Rejects Rejects Reach ''C1'' None None sample_world
     = Inr [(''totalStudents'', Num 5), (''totalRecords'', Num 3), (''present'', Num 1),
            (''absent'', Num 2), (''late'', Num 0),
            (''presentPercentage'', Num (2345624805922133 / 70368744177664)),
            (''attendanceRate'', Num (2345624805922133 / 70368744177664))]
   \<and> (2345624805922133 / 70368744177664 :: rat) * 10 \<notin> \<int>"
proof -
  have n: "(2345624805922133 / 70368744177664 :: rat) * 10 \<notin> \<int>"
  proof
    assume "(2345624805922133 / 70368744177664 :: rat) * 10 \<in> \<int>"
    then obtain k :: int where "(2345624805922133 / 70368744177664 :: rat) * 10 = of_int k"
      by (auto elim: Ints_cases)
    then have "(of_int (k * 70368744177664) :: rat) = of_int 23456248059221330"
      by simp
    then have e: "k * 70368744177664 = 23456248059221330"
      by (simp only: of_int_eq_iff)
    have "(4 :: int) dvd 70368744177664"
      by simp
    then have "(4 :: int) dvd k * 70368744177664"
      by (rule dvd_mult)
    then have "(4 :: int) dvd 23456248059221330"
      by (simp only: e)
    then show False
      by simp
  qed
  have p: "percent 1 3 = 2345624805922133 / 70368744177664"
    by (simp add: percent_def double_value_def double_mul_def double_div_def nearest_double_def
          round_ties_even_def bitlen.simps Let_def)
  have p': "percent (Suc 0) (Suc (Suc (Suc 0))) = 2345624805922133 / 70368744177664"
    using p by (simp add: eval_nat_numeral)
  have r: "stats_records Reach ''C1'' None None sample_world
      = Inr [Some (JStr ''present''), Some (JStr ''absent''), Some (JStr ''absent'')]"
    by (simp add: stats_records_def query_status_def truthy_def sample_world_def sample_rows_def
          status_text_def)
  have g: "getCourseStudents Rejects ''C1'' = Inr (map Some mockStudents)"
    by (simp add: getCourseStudents_def)
  have l: "length mockStudents = 5"
    by (simp add: mockStudents_def)
  have "getAttendanceStats Rejects Rejects Reach ''C1'' None None sample_world
     = Inr [(''totalStudents'', Num 5), (''totalRecords'', Num 3), (''present'', Num 1),
            (''absent'', Num 2), (''late'', Num 0),
            (''presentPercentage'', Num (2345624805922133 / 70368744177664)),
            (''attendanceRate'', Num (2345624805922133 / 70368744177664))]"
    by (simp add: getAttendanceStats_def g r l stats_object_def count_status_def status_text_def
          p')
  with n show ?thesis
    by blast
qed

subsection \<open>C8: the unmarked count\<close>

text \<open>
  C8, as amended. The object of the service has exactly the properties
  \<^verbatim>\<open>totalStudents\<close>, \<^verbatim>\<open>totalRecords\<close>, \<^verbatim>\<open>present\<close>, \<^verbatim>\<open>absent\<close>,
  \<^verbatim>\<open>late\<close>, \<^verbatim>\<open>presentPercentage\<close> and \<^verbatim>\<open>attendanceRate\<close>, the first two
  being the roster size and the number of records. The unmarked count is computed by the
  course card only, as \<^verbatim>\<open>unmarked = totalStudents - markedStudents\<close>; it agrees
  with max(0, totalStudents - markedStudents) when the records do not outnumber the
  roster.
\<close>

theorem stats_fields:
  "map fst (stats_object t rs)
     = [''totalStudents'', ''totalRecords'', ''present'', ''absent'', ''late'',
        ''presentPercentage'', ''attendanceRate'']
   \<and> map_of (stats_object t rs) ''totalStudents'' = Some (Num (of_nat t))
   \<and> map_of (stats_object t rs) ''totalRecords'' = Some (Num (of_nat (length rs)))
   \<and> map_of (CourseCard_getAttendanceStats toFixed1 students records) ''unmarked''
       = Some (Num (of_int (int (length students) - int (length records))))
   \<and> (length records \<le> length students \<longrightarrow>
        map_of (CourseCard_getAttendanceStats toFixed1 students records) ''unmarked''
          = Some (Num (of_int (max 0 (int (length students) - int (length records))))))"
  by (simp add: stats_object_def CourseCard_getAttendanceStats_def Let_def)

text \<open>
  The witness of C8: a roster of two with one record.
\<close>

theorem stats_fields_witness:
  "length [Row (hd sample_rows)] \<le> length [(), ()]
   \<and> map_of (CourseCard_getAttendanceStats (\<lambda>x. []) [(), ()] [Row (hd sample_rows)])
        ''unmarked'' = Some (Num 1)
   \<and> map fst (stats_object 5 [Some (JStr ''present'')])
       = [''totalStudents'', ''totalRecords'', ''present'', ''absent'', ''late'',
          ''presentPercentage'', ''attendanceRate'']"
  using stats_fields [of 5 "[Some (JStr ''present'')]" "\<lambda>x. []" "[(), ()]"
      "[Row (hd sample_rows)]"]
  by simp

text \<open>
  C8 as stated fails: the object of the service has no property \<^verbatim>\<open>unmarkedCount\<close>,
  and the count of the course card is -1 for one record and an empty roster.
\<close>

theorem service_stats_no_unmarkedCount:
  "getAttendanceStats Rejects Rejects Reach ''C1'' None None sample_world
     = Inr (stats_object 5
              [Some (JStr ''present''), Some (JStr ''absent''), Some (JStr ''absent'')])
   \<and> map_of (stats_object 5
                [Some (JStr ''present''), Some (JStr ''absent''), Some (JStr ''absent'')])
        ''unmarkedCount'' = None
   \<and> map_of (CourseCard_getAttendanceStats (\<lambda>x. []) ([] :: unit list)
               [Row (hd sample_rows)]) ''unmarked'' = Some (Num (- 1))"
proof -
  have g: "getAttendanceStats Rejects Rejects Reach ''C1'' None None sample_world
     = Inr (stats_object 5
              [Some (JStr ''present''), Some (JStr ''absent''), Some (JStr ''absent'')])"
    by (simp add: getAttendanceStats_def getCourseStudents_def mockStudents_def
          stats_records_def query_status_def truthy_def sample_world_def sample_rows_def
          status_text_def eval_nat_numeral)
  have k: "map fst (stats_object 5
                [Some (JStr ''present''), Some (JStr ''absent''), Some (JStr ''absent'')])
     = [''totalStudents'', ''totalRecords'', ''present'', ''absent'', ''late'',
        ''presentPercentage'', ''attendanceRate'']"
    by (simp add: stats_object_def Let_def)
  have n: "map_of (stats_object 5
                [Some (JStr ''present''), Some (JStr ''absent''), Some (JStr ''absent'')])
        ''unmarkedCount'' = None"
    unfolding map_of_eq_None_iff set_map [symmetric] k by simp
  have c: "map_of (CourseCard_getAttendanceStats (\<lambda>x. []) ([] :: unit list)
               [Row (hd sample_rows)]) ''unmarked'' = Some (Num (- 1))"
    by (simp add: CourseCard_getAttendanceStats_def Let_def)
  from g n c show ?thesis by blast
qed

subsection \<open>C9: the bulk import reports no failure\<close>

text \<open>
  C9. For every list of entries, every environment and every state,
  \<^verbatim>\<open>bulkImportAttendance\<close> returns \<^verbatim>\<open>success\<close> equal to the number of entries,
  \<^verbatim>\<open>failed\<close> 0 and no error message: \<^verbatim>\<open>markSingleAttendance\<close> never rejects, so
  the \<^verbatim>\<open>catch\<close> of the loop is never entered.
\<close>

theorem bulkImportAttendance_all_success:
  "fst (bulkImportAttendance es cid attendanceData marker w)
     = \<lparr>success = length attendanceData, failed = 0, errors = []\<rparr>"
  by (simp add: bulkImportAttendance_def import_loop_counts)

text \<open>
  Two entries on a state whose cache entry does not parse, every request rejected: each
  call returns \<^verbatim>\<open>false\<close> and is counted as a success. The same count comes out when
  the quota of \<^verbatim>\<open>localStorage\<close> is used up.
\<close>

theorem bulkImportAttendance_all_success_witness:
  "fst (markSingleAttendance down ''C1'' ''S1'' ''2024-01-15'' present ''I1'' corrupt_world)
     = Inr False
   \<and> fst (bulkImportAttendance (\<lambda>i. down) ''C1''
            [(''S1'', ''2024-01-15'', present), (''S2'', ''2024-01-15'', late)] ''I1''
            corrupt_world)
       = \<lparr>success = 2, failed = 0, errors = []\<rparr>
   \<and> fst (markSingleAttendance full ''C1'' ''S1'' ''2024-01-15'' present ''I1'' empty_world)
       = Inr False
   \<and> fst (bulkImportAttendance (\<lambda>i. full) ''C1''
            [(''S1'', ''2024-01-15'', present), (''S2'', ''2024-01-15'', late)] ''I1''
            empty_world)
       = \<lparr>success = 2, failed = 0, errors = []\<rparr>"
  using bulkImportAttendance_all_success [of "\<lambda>i. down" "''C1''"
      "[(''S1'', ''2024-01-15'', present), (''S2'', ''2024-01-15'', late)]" "''I1''"
      corrupt_world]
    bulkImportAttendance_all_success [of "\<lambda>i. full" "''C1''"
      "[(''S1'', ''2024-01-15'', present), (''S2'', ''2024-01-15'', late)]" "''I1''"
      empty_world]
  by (simp add: markSingleAttendance_eq down_def full_def corrupt_world_def empty_world_def
        JSON_parse_def getItem_def storageKey_def assign_def)

subsection \<open>C10: the cache frame of a single mark\<close>




end
